theory Spec2Isabelle
  imports Complex_Main
begin


section \<open>Exceptions\<close>

text \<open>
  The exception classes that the modelled code raises, catches or classifies.
  \<open>RateLimitError\<close> and \<open>InternalServerError\<close> are the two classes of the client
  library that the retry decorator treats as transient; \<open>OtherError\<close> stands for any
  other exception raised by a wrapped call. \<open>AttributeError\<close> is what reading a field
  of \<open>current_session\<close> raises while there is no current session.
\<close>

datatype error =
    RateLimitError
  | InternalServerError
  | ValueError
  | KeyError
  | TypeError
  | AttributeError
  | OtherError

section \<open>The retry decorator (document_processor.py, retry_with_exponential_backoff)\<close>

text \<open>
  \<open>isinstance(e, (RateLimitError, InternalServerError))\<close>.
\<close>

fun is_transient :: "error \<Rightarrow> bool" where
  "is_transient RateLimitError = True"
| "is_transient InternalServerError = True"
| "is_transient _ = False"

text \<open>
  The wrapped function works on some state \<open>'s\<close> and either returns a value or raises.
  The world of the wrapper adds what the wrapper itself does to the outside: the
  number of times it has called the wrapped function, and the arguments it has passed
  to \<open>time.sleep\<close>, oldest first.
\<close>

record 's world =
  inner :: 's
  attempts :: nat
  sleeps :: "real list"

text \<open>
  The body of \<open>for retry in range(max_retries)\<close>. The first numeric argument counts the
  iterations that are left, \<open>retry\<close> is the loop variable and \<open>delay\<close> the local of
  that name. \<open>u retry\<close> is the value that \<open>random.uniform(0, 0.1)\<close> returns in
  iteration \<open>retry\<close>. The result is \<open>Inr (Some v)\<close> when the wrapped call returned
  \<open>v\<close>, \<open>Inl e\<close> when the wrapper raised \<open>e\<close>, and \<open>Inr None\<close> for the
  \<open>return None\<close> after the loop.
\<close>

fun retry_loop ::
  "('s \<Rightarrow> (error + 'a) \<times> 's) \<Rightarrow> nat \<Rightarrow> int \<Rightarrow> (nat \<Rightarrow> real) \<Rightarrow>
   nat \<Rightarrow> nat \<Rightarrow> int \<Rightarrow> 's world \<Rightarrow> (error + 'a option) \<times> 's world" where
  "retry_loop func max_retries max_delay u 0 retry delay w = (Inr None, w)"
| "retry_loop func max_retries max_delay u (Suc n) retry delay w =
     (case func (inner w) of (r, s') \<Rightarrow>
        let w1 = w\<lparr>inner := s', attempts := Suc (attempts w)\<rparr> in
        (case r of
           Inr v \<Rightarrow> (Inr (Some v), w1)
         | Inl e \<Rightarrow>
             if \<not> is_transient e then (Inl e, w1)
             else if int retry = int max_retries - 1 then (Inl e, w1)
             else
               let jitter = u retry * real_of_int delay;
                   sleep_time = real_of_int delay + jitter
               in retry_loop func max_retries max_delay u n (Suc retry)
                    (min (delay * 2) max_delay)
                    (w1\<lparr>sleeps := sleeps w1 @ [sleep_time]\<rparr>)))"

definition retry_with_exponential_backoff ::
  "nat \<Rightarrow> int \<Rightarrow> int \<Rightarrow> ('s \<Rightarrow> (error + 'a) \<times> 's) \<Rightarrow> (nat \<Rightarrow> real) \<Rightarrow> 's \<Rightarrow>
   (error + 'a option) \<times> 's world" where
  "retry_with_exponential_backoff max_retries initial_delay max_delay func u s =
     retry_loop func max_retries max_delay u max_retries 0 initial_delay
       \<lparr>inner = s, attempts = 0, sleeps = []\<rparr>"

text \<open>The decorator as it is applied in the code, \<open>@retry_with_exponential_backoff()\<close>,
  with the default arguments \<open>max_retries=5, initial_delay=1, max_delay=32\<close>.\<close>

definition wrapper ::
  "('s \<Rightarrow> (error + 'a) \<times> 's) \<Rightarrow> (nat \<Rightarrow> real) \<Rightarrow> 's \<Rightarrow> (error + 'a option) \<times> 's world" where
  "wrapper func u s = retry_with_exponential_backoff 5 1 32 func u s"

text \<open>The outcomes of the first \<open>n\<close> successive calls of the wrapped function from
  state \<open>s\<close>, each call starting in the state the previous one left.\<close>

fun outcomes :: "('s \<Rightarrow> (error + 'a) \<times> 's) \<Rightarrow> 's \<Rightarrow> nat \<Rightarrow> (error + 'a) list" where
  "outcomes func s 0 = []"
| "outcomes func s (Suc n) = (case func s of (r, s') \<Rightarrow> r # outcomes func s' n)"

fun transient_failure :: "error + 'a \<Rightarrow> bool" where
  "transient_failure (Inl e) = is_transient e"
| "transient_failure (Inr v) = False"

text \<open>A wrapped call whose outcomes are scripted: the state is the list of outcomes still
  to come, and each call consumes one. It serves as a concrete endpoint where the
  theorems are evaluated.\<close>

fun scripted :: "(error + 'a) list \<Rightarrow> (error + 'a) \<times> (error + 'a) list" where
  "scripted [] = (Inl OtherError, [])"
| "scripted (r # rs) = (r, rs)"

text \<open>The base delay that the specification gives for the \<open>k\<close>-th retry, \<open>k \<ge> 1\<close>:
  1, 2, 4, ... capped at 32.\<close>

definition base_delay :: "nat \<Rightarrow> int" where
  "base_delay k = min (2 ^ (k - 1)) 32"

section \<open>Strings and integers of the host language\<close>

text \<open>
  The characters that \<open>str.strip()\<close> and \<open>int()\<close> treat as white space, among the
  ASCII characters: tab, line feed, vertical tab, form feed, carriage return, the four
  separators \<open>0x1C\<close> to \<open>0x1F\<close>, and the space.
\<close>

definition is_space :: "char \<Rightarrow> bool" where
  "is_space c = (c \<in> set [CHR 0x09, CHR 0x0A, CHR 0x0B, CHR 0x0C, CHR 0x0D,
                            CHR 0x1C, CHR 0x1D, CHR 0x1E, CHR 0x1F, CHR 0x20])"

definition strip :: "string \<Rightarrow> string" where
  "strip s = rev (dropWhile is_space (rev (dropWhile is_space s)))"

definition startswith :: "string \<Rightarrow> string \<Rightarrow> bool" where
  "startswith s p = (take (length p) s = p)"

definition endswith :: "string \<Rightarrow> string \<Rightarrow> bool" where
  "endswith s p = (length p \<le> length s \<and> drop (length s - length p) s = p)"

definition is_digit :: "char \<Rightarrow> bool" where
  "is_digit c = (c \<in> set ''0123456789'')"

definition digit_val :: "char \<Rightarrow> int" where
  "digit_val c = int (of_char c) - 48"

text \<open>
  The digits of a decimal literal as \<open>int()\<close> reads them: at least one digit, and single
  underscores allowed between digits. \<open>acc\<close> is the value read so far and \<open>prev\<close> tells
  whether the previous character was a digit.
\<close>

fun parse_digits :: "string \<Rightarrow> int \<Rightarrow> bool \<Rightarrow> int option" where
  "parse_digits [] acc prev = (if prev then Some acc else None)"
| "parse_digits (c # cs) acc prev =
     (if is_digit c then parse_digits cs (10 * acc + digit_val c) True
      else if c = CHR ''_'' \<and> prev then parse_digits cs acc False
      else None)"

text \<open>\<open>int(s)\<close> for a string \<open>s\<close>; \<open>None\<close> stands for the \<open>ValueError\<close> it raises on
  anything that is not a decimal integer literal.\<close>

definition py_int :: "string \<Rightarrow> int option" where
  "py_int s =
     (case strip s of
        [] \<Rightarrow> None
      | c # cs \<Rightarrow>
          if c = CHR ''-'' then map_option uminus (parse_digits cs 0 False)
          else if c = CHR ''+'' then parse_digits cs 0 False
          else parse_digits (c # cs) 0 False)"

text \<open>The decimal digits of a natural number, most significant first.\<close>

fun dec :: "nat \<Rightarrow> string" where
  "dec n = (if n < 10 then [''0123456789'' ! n]
            else dec (n div 10) @ [''0123456789'' ! (n mod 10)])"

declare dec.simps [simp del]

definition zfill :: "nat \<Rightarrow> string \<Rightarrow> string" where
  "zfill w s = replicate (w - length s) CHR ''0'' @ s"

text \<open>
  The format specification \<open>05d\<close>, as in \<open>f"{n:05d}"\<close>: the decimal digits, padded with
  zeros after the sign to a width of at least 5; a longer number is not truncated.
\<close>

definition format_05d :: "int \<Rightarrow> string" where
  "format_05d n =
     (if n < 0 then CHR ''-'' # zfill 4 (dec (nat (- n))) else zfill 5 (dec (nat n)))"

text \<open>
  The slice \<open>xs[i:]\<close>: a negative start counts from the end of the list, and a start
  beyond either end is clamped.
\<close>

definition slice_from :: "int \<Rightarrow> 'a list \<Rightarrow> 'a list" where
  "slice_from i xs =
     (let n = int (length xs);
          j = (if i < 0 then max (i + n) 0 else min i n)
      in drop (nat j) xs)"


section \<open>The data model (session_manager.py)\<close>

text \<open>
  A \<open>datetime\<close> is a point in time. Where the code expects a time it may find a
  \<open>datetime\<close> object, the ISO-8601 text of one, or some other text. The library
  functions \<open>isoformat\<close> and \<open>fromisoformat\<close> are inverse to each other on the times
  they can express, so the ISO text of a time is represented by the time it denotes.
\<close>

type_synonym datetime = nat

datatype stamp = DatetimeObj datetime | IsoText datetime | OtherText string

definition isoformat :: "datetime \<Rightarrow> stamp" where
  "isoformat d = IsoText d"

fun fromisoformat :: "stamp \<Rightarrow> error + datetime" where
  "fromisoformat (IsoText d) = Inr d"
| "fromisoformat (OtherText t) = Inl ValueError"
| "fromisoformat (DatetimeObj d) = Inl TypeError"

text \<open>
  A message of the history is a dictionary with the keys \<open>role\<close> and \<open>content\<close> and,
  unless it was appended by \<open>generate_and_run_prompt\<close>, the key \<open>prompt_id\<close>;
  \<open>None\<close> stands for a missing key.
\<close>

record message =
  role :: string
  content :: string
  prompt_id :: "string option"

text \<open>\<open>created_at\<close> is a \<open>datetime\<close> object in a branch record that \<open>create_branch\<close>
  has built, and a text in one that \<open>from_dict\<close> has read. \<open>document_hash\<close> is the
  result of \<open>_hash_documents\<close>, whose body is \<open>pass\<close>.\<close>

record BranchInfo =
  branch_name :: string
  parent_id :: string
  created_at :: stamp
  document_hash :: "string option"

text \<open>
  The session. Its list of messages is a mutable object that the session refers to;
  the type parameter is \<open>message list\<close> where only the value of the list matters, and
  an address of the store of lists below where it matters which list object it is.
\<close>

record 'w Session =
  session_id :: string
  conversation_id :: string
  name :: string
  document_summary :: string
  message_window :: 'w
  created_at :: datetime
  last_accessed :: datetime
  window_size :: int
  branch_info :: "BranchInfo option"
  last_prompt_id :: int
  total_input_tokens :: int
  total_output_tokens :: int
  total_cost :: real

definition DEFAULT_CONTEXT_WINDOW :: int where
  "DEFAULT_CONTEXT_WINDOW = 10"

text \<open>
  The dictionary that \<open>to_dict\<close> builds and \<open>from_dict\<close> reads, which is also what a
  session file holds as JSON. A field is \<open>None\<close> when the key is missing (for
  \<open>branch_info\<close>, also when its value is null).
\<close>

record session_dict =
  d_session_id :: "string option"
  d_conversation_id :: "string option"
  d_name :: "string option"
  d_document_summary :: "string option"
  d_message_window :: "message list option"
  d_created_at :: "stamp option"
  d_last_accessed :: "stamp option"
  d_window_size :: "int option"
  d_branch_info :: "BranchInfo option"
  d_last_prompt_id :: "int option"
  d_total_input_tokens :: "int option"
  d_total_output_tokens :: "int option"
  d_total_cost :: "real option"

subsection \<open>Session.get_next_prompt_id\<close>

definition get_next_prompt_id :: "'w Session \<Rightarrow> string \<times> 'w Session" where
  "get_next_prompt_id self =
     (let self' = self\<lparr>last_prompt_id := last_prompt_id self + 1\<rparr>
      in (format_05d (last_prompt_id self'), self'))"

text \<open>\<open>n\<close> successive calls, with the identifiers they return in order.\<close>

fun get_next_prompt_ids :: "nat \<Rightarrow> 'w Session \<Rightarrow> string list \<times> 'w Session" where
  "get_next_prompt_ids 0 self = ([], self)"
| "get_next_prompt_ids (Suc n) self =
     (case get_next_prompt_id self of (p, self') \<Rightarrow>
        (case get_next_prompt_ids n self' of (ps, self'') \<Rightarrow> (p # ps, self'')))"

subsection \<open>Session.to_dict and Session.from_dict\<close>

definition to_dict :: "message list Session \<Rightarrow> session_dict" where
  "to_dict self =
     \<lparr>d_session_id = Some (session_id self),
      d_conversation_id = Some (conversation_id self),
      d_name = Some (name self),
      d_document_summary = Some (document_summary self),
      d_message_window = Some (message_window self),
      d_created_at = Some (isoformat (Session.created_at self)),
      d_last_accessed = Some (isoformat (last_accessed self)),
      d_window_size = Some (window_size self),
      d_branch_info = branch_info self,
      d_last_prompt_id = Some (last_prompt_id self),
      d_total_input_tokens = Some (total_input_tokens self),
      d_total_output_tokens = Some (total_output_tokens self),
      d_total_cost = Some (total_cost self)\<rparr>"

text \<open>
  The generator \<open>int(msg['prompt_id']) for msg in message_window if msg['role'] == 'user'\<close>,
  run to its end: the identifiers of the user messages in order, or the first exception,
  \<open>KeyError\<close> for a user message without the key and \<open>ValueError\<close> for one whose
  identifier is not an integer literal.
\<close>

fun user_prompt_ids :: "message list \<Rightarrow> error + int list" where
  "user_prompt_ids [] = Inr []"
| "user_prompt_ids (msg # msgs) =
     (if role msg = ''user'' then
        (case prompt_id msg of
           None \<Rightarrow> Inl KeyError
         | Some p \<Rightarrow>
             (case py_int p of
                None \<Rightarrow> Inl ValueError
              | Some i \<Rightarrow>
                  (case user_prompt_ids msgs of
                     Inl e \<Rightarrow> Inl e
                   | Inr ids \<Rightarrow> Inr (i # ids))))
      else user_prompt_ids msgs)"

text \<open>\<open>max(...)\<close> of that generator; \<open>max\<close> of an empty sequence raises \<open>ValueError\<close>.\<close>

definition max_user_prompt_id :: "message list \<Rightarrow> error + int" where
  "max_user_prompt_id msgs =
     (case user_prompt_ids msgs of
        Inl e \<Rightarrow> Inl e
      | Inr [] \<Rightarrow> Inl ValueError
      | Inr (i # ids) \<Rightarrow> Inr (fold max ids i))"

text \<open>\<open>data[key]\<close>, which raises \<open>KeyError\<close> on a missing key, and \<open>data.get(key, default)\<close>.\<close>

definition subscript :: "'a option \<Rightarrow> error + 'a" where
  "subscript v = (case v of None \<Rightarrow> Inl KeyError | Some x \<Rightarrow> Inr x)"

definition get_default :: "'a option \<Rightarrow> 'a \<Rightarrow> 'a" where
  "get_default v d = (case v of None \<Rightarrow> d | Some x \<Rightarrow> x)"

text \<open>
  \<open>from_dict\<close>. \<open>fresh_id\<close> is the identifier that \<open>generate_conversation_id()\<close>
  draws. The arguments of the constructor are evaluated in the order in which they are
  written, so the first missing or malformed one decides the exception.
\<close>

definition from_dict :: "string \<Rightarrow> session_dict \<Rightarrow> error + message list Session" where
  "from_dict fresh_id data =
     (case subscript (d_session_id data) of Inl e \<Rightarrow> Inl e | Inr sid \<Rightarrow>
      case subscript (d_name data) of Inl e \<Rightarrow> Inl e | Inr nm \<Rightarrow>
      case subscript (d_document_summary data) of Inl e \<Rightarrow> Inl e | Inr summary \<Rightarrow>
      case subscript (d_message_window data) of Inl e \<Rightarrow> Inl e | Inr mw \<Rightarrow>
      case subscript (d_created_at data) of Inl e \<Rightarrow> Inl e | Inr c \<Rightarrow>
      case fromisoformat c of Inl e \<Rightarrow> Inl e | Inr created \<Rightarrow>
      case subscript (d_last_accessed data) of Inl e \<Rightarrow> Inl e | Inr a \<Rightarrow>
      case fromisoformat a of Inl e \<Rightarrow> Inl e | Inr accessed \<Rightarrow>
        let session =
              \<lparr>session_id = sid,
               conversation_id = get_default (d_conversation_id data) fresh_id,
               name = nm,
               document_summary = summary,
               message_window = mw,
               created_at = created,
               last_accessed = accessed,
               window_size = get_default (d_window_size data) DEFAULT_CONTEXT_WINDOW,
               branch_info = None,
               last_prompt_id = get_default (d_last_prompt_id data) 0,
               total_input_tokens = get_default (d_total_input_tokens data) 0,
               total_output_tokens = get_default (d_total_output_tokens data) 0,
               total_cost = get_default (d_total_cost data) 0\<rparr>;
            session = (case d_branch_info data of
                         None \<Rightarrow> session
                       | Some b \<Rightarrow> session\<lparr>branch_info := Some b\<rparr>)
        in if last_prompt_id session = 0 \<and> message_window session \<noteq> [] then
             (case max_user_prompt_id (message_window session) of
                Inr m \<Rightarrow> Inr (session\<lparr>last_prompt_id := m\<rparr>)
              | Inl e \<Rightarrow>
                  if e = ValueError \<or> e = KeyError then Inr (session\<lparr>last_prompt_id := 0\<rparr>)
                  else Inl e)
           else Inr session)"


text \<open>
  The rule in the words of the specification: the maximum \<open>prompt_id\<close> among the user
  messages, and 0 when there is no user message or when one of them has no identifier
  that reads as an integer.
\<close>

definition user_messages :: "message list \<Rightarrow> message list" where
  "user_messages msgs = filter (\<lambda>m. role m = ''user'') msgs"

definition id_of :: "message \<Rightarrow> int option" where
  "id_of m = (case prompt_id m of None \<Rightarrow> None | Some p \<Rightarrow> py_int p)"

definition id_value :: "message \<Rightarrow> int" where
  "id_value m = (case id_of m of None \<Rightarrow> 0 | Some i \<Rightarrow> i)"

definition ids_well_formed :: "message list \<Rightarrow> bool" where
  "ids_well_formed msgs = list_all (\<lambda>m. id_of m \<noteq> None) (user_messages msgs)"

definition max_prompt_id_among_users :: "message list \<Rightarrow> int" where
  "max_prompt_id_among_users msgs =
     (if user_messages msgs \<noteq> [] \<and> ids_well_formed msgs
      then Max (set (map id_value (user_messages msgs)))
      else 0)"


section \<open>Storage\<close>

text \<open>
  A file of the directory \<open>sessions\<close> holds the JSON text of a dictionary, or something
  on which \<open>json.load\<close> raises \<open>JSONDecodeError\<close>. The directory is the list of its
  files in the order in which \<open>os.listdir\<close> yields them. \<open>output_docs\<close> gives, for
  each conversation name whose directory under \<open>output-docs\<close> exists, the files of that
  directory with their lines; \<open>made_dirs\<close> is the set of the other directories that
  \<open>os.makedirs\<close> has created.
\<close>

datatype json_file = Json session_dict | NotJson

record storage =
  session_files :: "(string \<times> json_file) list"
  output_docs :: "(string \<times> (string \<times> string list) list) list"
  made_dirs :: "string set"

text \<open>\<open>open(path, 'w')\<close> followed by a write: the file is replaced where it is listed, or
  listed last when it is new.\<close>

fun write_file :: "string \<Rightarrow> json_file \<Rightarrow> (string \<times> json_file) list \<Rightarrow> (string \<times> json_file) list" where
  "write_file path f [] = [(path, f)]"
| "write_file path f ((p, g) # rest) =
     (if p = path then (path, f) # rest else (p, g) # write_file path f rest)"

subsection \<open>Session.create_new\<close>

text \<open>
  The first loop of \<open>create_new\<close>: the dictionary of the first file named \<open>*.json\<close>
  that decodes and whose \<open>name\<close> is the one looked for.
\<close>

fun find_session :: "(string \<times> json_file) list \<Rightarrow> string \<Rightarrow> session_dict option" where
  "find_session [] nm = None"
| "find_session ((filename, f) # rest) nm =
     (if endswith filename ''.json'' then
        (case f of
           NotJson \<Rightarrow> find_session rest nm
         | Json data \<Rightarrow> if d_name data = Some nm then Some data else find_session rest nm)
      else find_session rest nm)"

text \<open>
  The loop over the lines of one conversation file. The state is \<open>last_prompt_id\<close>,
  \<open>message_window\<close> and \<open>current_prompt\<close>.
\<close>

fun scan_lines ::
  "string list \<Rightarrow> int \<times> message list \<times> string option \<Rightarrow> int \<times> message list \<times> string option" where
  "scan_lines [] st = st"
| "scan_lines (line # lines) (lp, mw, current_prompt) =
     (if startswith line ''## ID: '' then
        (case py_int (take 5 (drop 7 line)) of
           None \<Rightarrow> scan_lines lines (lp, mw, current_prompt)
         | Some pid \<Rightarrow> scan_lines lines (max lp pid, mw, Some (format_05d pid)))
      else if startswith line ''**Q:** '' then
        (case current_prompt of
           None \<Rightarrow> scan_lines lines (lp, mw, current_prompt)
         | Some p \<Rightarrow>
             scan_lines lines
               (lp, mw @ [\<lparr>role = ''user'', content = strip (drop 6 line), prompt_id = Some p\<rparr>],
                current_prompt))
      else if startswith line ''**A:** '' then
        (case current_prompt of
           None \<Rightarrow> scan_lines lines (lp, mw, current_prompt)
         | Some p \<Rightarrow>
             scan_lines lines
               (lp, mw @ [\<lparr>role = ''assistant'', content = strip (drop 6 line), prompt_id = Some p\<rparr>],
                current_prompt))
      else scan_lines lines (lp, mw, current_prompt))"

fun scan_files ::
  "(string \<times> string list) list \<Rightarrow> int \<times> message list \<Rightarrow> int \<times> message list" where
  "scan_files [] st = st"
| "scan_files ((filename, lines) # files) (lp, mw) =
     (if startswith filename ''conversation_'' \<and> endswith filename ''.md'' then
        (case scan_lines lines (lp, mw, None) of (lp', mw', current_prompt) \<Rightarrow>
           scan_files files (lp', mw'))
      else scan_files files (lp, mw))"

text \<open>\<open>os.makedirs(os.path.join(base_dir, name), exist_ok=True)\<close> for the three base
  directories \<open>input-docs\<close>, \<open>processed-docs\<close> and \<open>output-docs\<close>.\<close>

definition make_dirs :: "string \<Rightarrow> storage \<Rightarrow> storage" where
  "make_dirs nm st =
     st\<lparr>made_dirs := insert (''processed-docs/'' @ nm) (insert (''input-docs/'' @ nm) (made_dirs st)),
        output_docs := (case map_of (output_docs st) nm of
                          None \<Rightarrow> output_docs st @ [(nm, [])]
                        | Some files \<Rightarrow> output_docs st)\<rparr>"

text \<open>What one call of \<open>create_new\<close> draws from outside: the result of \<open>uuid.uuid4()\<close>,
  that of \<open>generate_conversation_id()\<close>, and the two readings of the clock.\<close>

record fresh =
  uuid4 :: string
  generated_conversation_id :: string
  now_created :: datetime
  now_accessed :: datetime

definition create_new ::
  "fresh \<Rightarrow> storage \<Rightarrow> string \<Rightarrow> string \<Rightarrow> int \<Rightarrow> (error + message list Session) \<times> storage" where
  "create_new fr st nm summary lp0 =
     (case find_session (session_files st) nm of
        Some data \<Rightarrow>
          (case from_dict (generated_conversation_id fr) data of
             Inl e \<Rightarrow> (Inl e, st)
           | Inr session \<Rightarrow>
               if message_window session \<noteq> [] then
                 (case max_user_prompt_id (message_window session) of
                    Inl e \<Rightarrow> (Inl e, st)
                  | Inr max_id \<Rightarrow> (Inr (session\<lparr>last_prompt_id := max_id\<rparr>), st))
               else (Inr session, st))
      | None \<Rightarrow>
          (case (case map_of (output_docs st) nm of
                   None \<Rightarrow> (lp0, [])
                 | Some files \<Rightarrow> scan_files files (lp0, [])) of
             (lp, mw) \<Rightarrow>
               (Inr \<lparr>session_id = uuid4 fr,
                     conversation_id = generated_conversation_id fr,
                     name = nm,
                     document_summary = summary,
                     message_window = mw,
                     created_at = now_created fr,
                     last_accessed = now_accessed fr,
                     window_size = DEFAULT_CONTEXT_WINDOW,
                     branch_info = None,
                     last_prompt_id = lp,
                     total_input_tokens = 0,
                     total_output_tokens = 0,
                     total_cost = 0\<rparr>,
                make_dirs nm st)))"

subsection \<open>List objects and Session.create_branch\<close>

text \<open>
  The store of list objects: \<open>cell h a\<close> is the value of the list at address \<open>a\<close>, and
  the addresses below \<open>free h\<close> are those in use. \<open>alloc\<close> creates a list object,
  \<open>append_to\<close> is \<open>list.append\<close> on the object at an address.
\<close>

type_synonym addr = nat

record heap =
  cell :: "addr \<Rightarrow> message list"
  free :: addr

definition alloc :: "message list \<Rightarrow> heap \<Rightarrow> addr \<times> heap" where
  "alloc xs h = (free h, h\<lparr>cell := (cell h)(free h := xs), free := Suc (free h)\<rparr>)"

definition append_to :: "addr \<Rightarrow> message \<Rightarrow> heap \<Rightarrow> heap" where
  "append_to a m h = h\<lparr>cell := (cell h)(a := cell h a @ [m])\<rparr>"

text \<open>The same session with another value in the place of its list of messages.\<close>

definition with_window :: "'a Session \<Rightarrow> 'b \<Rightarrow> 'b Session" where
  "with_window s w =
     \<lparr>session_id = session_id s,
      conversation_id = conversation_id s,
      name = name s,
      document_summary = document_summary s,
      message_window = w,
      created_at = Session.created_at s,
      last_accessed = last_accessed s,
      window_size = window_size s,
      branch_info = branch_info s,
      last_prompt_id = last_prompt_id s,
      total_input_tokens = total_input_tokens s,
      total_output_tokens = total_output_tokens s,
      total_cost = total_cost s\<rparr>"

text \<open>A session object seen as a value: its list of messages read from the store.\<close>

definition deref :: "heap \<Rightarrow> addr Session \<Rightarrow> message list Session" where
  "deref h s = with_window s (cell h (message_window s))"

text \<open>
  \<open>create_branch\<close>, with \<open>branch\<close> for the argument \<open>branch_name\<close>. \<open>now\<close> is the reading of the clock for the branch record. The
  session that \<open>create_new\<close> returns owns a new list object; with \<open>include_history\<close>
  its list is then replaced by \<open>self.message_window.copy()\<close>, another new list object
  with the elements of the parent's.
\<close>

definition create_branch ::
  "fresh \<Rightarrow> datetime \<Rightarrow> storage \<Rightarrow> heap \<Rightarrow> addr Session \<Rightarrow> string \<Rightarrow> bool \<Rightarrow>
   (error + addr Session) \<times> storage \<times> heap" where
  "create_branch fr now st h self branch include_history =
     (if CHR ''/'' \<in> set branch then (Inl ValueError, st, h)
      else
        let new_name = name self @ ''/'' @ branch in
        (case create_new fr st new_name (document_summary self) 0 of
           (Inl e, st') \<Rightarrow> (Inl e, st', h)
         | (Inr created, st') \<Rightarrow>
             (case alloc (message_window created) h of (a, h1) \<Rightarrow>
                let new_session =
                      (with_window created a)
                        \<lparr>branch_info :=
                           Some \<lparr>branch_name = branch,
                                 parent_id = session_id self,
                                 created_at = DatetimeObj now,
                                 document_hash = None\<rparr>\<rparr>
                in if include_history then
                     (case alloc (cell h1 (message_window self)) h1 of (b, h2) \<Rightarrow>
                        (Inr (new_session\<lparr>message_window := b\<rparr>), st', h2))
                   else (Inr new_session, st', h1))))"


section \<open>The document processor (document_processor.py)\<close>

text \<open>
  Of the processor only what the session operations touch is kept: the current session
  and the storage. The two prices are the constants that \<open>__init__\<close> assigns.
\<close>

record processor =
  current_session :: "message list Session option"
  store :: storage

definition input_token_price :: real where
  "input_token_price = 3 / 1000"

definition output_token_price :: real where
  "output_token_price = 15 / 1000"

subsection \<open>SessionManager.save_session\<close>

text \<open>
  \<open>json.dump\<close> raises \<open>TypeError\<close> on a \<open>datetime\<close> object. \<open>to_dict\<close> turns the two
  times of the session into text, and passes the branch record on as it is.
\<close>

definition is_datetime_obj :: "stamp \<Rightarrow> bool" where
  "is_datetime_obj v = (case v of DatetimeObj d \<Rightarrow> True | _ \<Rightarrow> False)"

definition json_serialisable :: "session_dict \<Rightarrow> bool" where
  "json_serialisable data =
     ((case d_created_at data of None \<Rightarrow> True | Some v \<Rightarrow> \<not> is_datetime_obj v) \<and>
      (case d_last_accessed data of None \<Rightarrow> True | Some v \<Rightarrow> \<not> is_datetime_obj v) \<and>
      (case d_branch_info data of
         None \<Rightarrow> True
       | Some b \<Rightarrow> \<not> is_datetime_obj (BranchInfo.created_at b)))"

text \<open>A session whose branch record, if it has one, holds no \<open>datetime\<close> object: one
  that has no branch record or whose branch record was read from a file.\<close>

definition branch_serialisable :: "'w Session \<Rightarrow> bool" where
  "branch_serialisable s =
     (case branch_info s of
        None \<Rightarrow> True
      | Some b \<Rightarrow> \<not> is_datetime_obj (BranchInfo.created_at b))"

text \<open>
  \<open>save_session\<close> sets \<open>last_accessed\<close> in the session object, opens the file of the
  session for writing and dumps the dictionary into it. When the dump raises, the file is
  left with the part written so far, which is not JSON.
\<close>

definition save_session ::
  "datetime \<Rightarrow> message list Session \<Rightarrow> storage \<Rightarrow>
   (error + unit) \<times> message list Session \<times> storage" where
  "save_session now session st =
     (let session' = session\<lparr>last_accessed := now\<rparr>;
          path = session_id session' @ ''.json''
      in if json_serialisable (to_dict session') then
           (Inr (), session',
            st\<lparr>session_files := write_file path (Json (to_dict session')) (session_files st)\<rparr>)
         else
           (Inl TypeError, session',
            st\<lparr>session_files := write_file path NotJson (session_files st)\<rparr>))"

subsection \<open>DocumentProcessor.track_usage (the method named _track_usage)\<close>

text \<open>The part of a response of the endpoint that the processor reads:
  \<open>response.content[0].text\<close> and the two counts of \<open>response.usage\<close>.\<close>

record response =
  answer_text :: string
  input_tokens :: int
  output_tokens :: int

definition track_usage :: "datetime \<Rightarrow> response \<Rightarrow> processor \<Rightarrow> (error + unit) \<times> processor" where
  "track_usage now resp p =
     (case current_session p of
        None \<Rightarrow> (Inl AttributeError, p)
      | Some s \<Rightarrow>
          let s1 = s\<lparr>total_input_tokens := total_input_tokens s + input_tokens resp\<rparr>;
              s2 = s1\<lparr>total_output_tokens := total_output_tokens s1 + output_tokens resp\<rparr>;
              input_cost = (real_of_int (input_tokens resp) / 1000) * input_token_price;
              output_cost = (real_of_int (output_tokens resp) / 1000) * output_token_price;
              s3 = s2\<lparr>total_cost := total_cost s2 + (input_cost + output_cost)\<rparr>
          in (case save_session now s3 (store p) of
                (r, s4, st') \<Rightarrow> (r, p\<lparr>current_session := Some s4, store := st'\<rparr>)))"




subsection \<open>DocumentProcessor.ask_question\<close>

text \<open>A message as it is sent to the endpoint: the role and the text of its one block of
  content.\<close>

record api_message =
  api_role :: string
  api_text :: string

definition to_api :: "message \<Rightarrow> api_message" where
  "to_api msg = \<lparr>api_role = role msg, api_text = content msg\<rparr>"

text \<open>The part of the history that is sent: \<open>message_window[-window_size:]\<close>.\<close>

definition context_window :: "message list Session \<Rightarrow> message list" where
  "context_window s = slice_from (- window_size s) (message_window s)"

definition build_messages :: "message list Session \<Rightarrow> string \<Rightarrow> api_message list" where
  "build_messages s question =
     map to_api (context_window s) @ [\<lparr>api_role = ''user'', api_text = question\<rparr>]"

text \<open>
  The body of \<open>ask_question\<close>, which the retry decorator wraps. \<open>endpoint\<close> stands for
  the steps that lie outside the model: checking the document summary, writing the debug
  file and calling \<open>messages.create\<close>; it is given the messages and yields the response or
  the exception. \<open>now1\<close> and \<open>now2\<close> are the readings of the clock of the two saves. The
  conversation file \<open>conversation.md\<close> that is appended to at the end is not part of
  the storage modelled here; \<open>create_new\<close> reads no file of that name.
\<close>

definition ask_question ::
  "(api_message list \<Rightarrow> error + response) \<Rightarrow> datetime \<Rightarrow> datetime \<Rightarrow> string \<Rightarrow> processor \<Rightarrow>
   (error + string \<times> string) \<times> processor" where
  "ask_question endpoint now1 now2 question p =
     (case current_session p of
        None \<Rightarrow> (Inl ValueError, p)
      | Some s \<Rightarrow>
          let messages = build_messages s question in
          (case endpoint messages of
             Inl e \<Rightarrow> (Inl e, p)
           | Inr resp \<Rightarrow>
               (case track_usage now1 resp p of
                  (Inl e, p1) \<Rightarrow> (Inl e, p1)
                | (Inr u, p1) \<Rightarrow>
                    (case current_session p1 of
                       None \<Rightarrow> (Inl AttributeError, p1)
                     | Some s1 \<Rightarrow>
                         let answer = answer_text resp in
                         (case get_next_prompt_id s1 of (pid, s2) \<Rightarrow>
                            let user_message =
                                  \<lparr>role = ''user'', content = question, prompt_id = Some pid\<rparr>;
                                assistant_message =
                                  \<lparr>role = ''assistant'', content = answer, prompt_id = Some pid\<rparr>;
                                s3 = s2\<lparr>message_window := message_window s2 @ [user_message]\<rparr>;
                                s4 = s3\<lparr>message_window := message_window s3 @ [assistant_message]\<rparr>
                            in (case save_session now2 s4 (store p1) of
                                  (Inl e, s5, st') \<Rightarrow>
                                    (Inl e, p1\<lparr>current_session := Some s5, store := st'\<rparr>)
                                | (Inr u', s5, st') \<Rightarrow>
                                    (Inr (answer, pid),
                                     p1\<lparr>current_session := Some s5, store := st'\<rparr>)))))))"

subsection \<open>The command \<open>/ld\<close> of the main loop (claude.py)\<close>


subsection \<open>DocumentProcessor.process_documents and reload_documents\<close>





subsection \<open>DocumentProcessor.create_branch\<close>

text \<open>
  The processor's \<open>create_branch\<close>. The current session and the session that
  \<open>Session.create_branch\<close> builds are objects; here the parent's list is the only list
  of the store at the start, and the new session is read back as a value for the save.
\<close>

definition processor_create_branch ::
  "fresh \<Rightarrow> datetime \<Rightarrow> datetime \<Rightarrow> string \<Rightarrow> bool \<Rightarrow> processor \<Rightarrow> (error + unit) \<times> processor" where
  "processor_create_branch fr now1 now2 branch include_history p =
     (case current_session p of
        None \<Rightarrow> (Inl ValueError, p)
      | Some cur \<Rightarrow>
          (case create_branch fr now1 (store p)
                  \<lparr>cell = (\<lambda>a. [])(0 := message_window cur), free = 1\<rparr>
                  (with_window cur 0) branch include_history of
             (Inl e, st', h') \<Rightarrow> (Inl e, p\<lparr>store := st'\<rparr>)
           | (Inr new_obj, st', h') \<Rightarrow>
               (case save_session now2 (deref h' new_obj) st' of
                  (Inl e, s', st'') \<Rightarrow> (Inl e, p\<lparr>store := st''\<rparr>)
                | (Inr u, s', st'') \<Rightarrow>
                    (Inr (), p\<lparr>current_session := Some s', store := st''\<rparr>))))"

section \<open>Concrete sessions\<close>

text \<open>The two messages that \<open>ask_question\<close> appends for the \<open>i\<close>-th question, and a
  history of \<open>n\<close> such pairs.\<close>

definition qa_pair :: "nat \<Rightarrow> message list" where
  "qa_pair i =
     [\<lparr>role = ''user'', content = ''question'', prompt_id = Some (format_05d (int i))\<rparr>,
      \<lparr>role = ''assistant'', content = ''answer'', prompt_id = Some (format_05d (int i))\<rparr>]"

definition history :: "nat \<Rightarrow> message list" where
  "history n = concat (map qa_pair [1..<Suc n])"

text \<open>A session as \<open>create_new\<close> returns it for a name that is not in storage, with a
  given history.\<close>

definition example_session :: "message list \<Rightarrow> message list Session" where
  "example_session msgs =
     \<lparr>session_id = ''0f8fad5b'',
      conversation_id = ''A1B2C3'',
      name = ''main'',
      document_summary = ''summary'',
      message_window = msgs,
      created_at = 100,
      last_accessed = 100,
      window_size = DEFAULT_CONTEXT_WINDOW,
      branch_info = None,
      last_prompt_id = int (length msgs div 2),
      total_input_tokens = 0,
      total_output_tokens = 0,
      total_cost = 0\<rparr>"

text \<open>A processor with that session as current session and nothing in storage, and an
  endpoint that answers every request in the same way.\<close>

definition example_processor :: "message list Session \<Rightarrow> processor" where
  "example_processor s =
     \<lparr>current_session = Some s,
      store = \<lparr>session_files = [], output_docs = [], made_dirs = {}\<rparr>\<rparr>"

definition example_endpoint :: "api_message list \<Rightarrow> error + response" where
  "example_endpoint msgs =
     Inr \<lparr>answer_text = ''forty-two'', input_tokens = 100, output_tokens = 50\<rparr>"


text \<open>What a call of \<open>create_new\<close> may draw, and a storage in which the session named
  \<open>main\<close>, with three pairs, was saved with a counter that is behind; the directory also
  holds a file that is not a session and a session file that does not decode.\<close>

definition example_fresh :: fresh where
  "example_fresh =
     \<lparr>uuid4 = ''7c9e6679'', generated_conversation_id = ''Q7XK2M'',
      now_created = 200, now_accessed = 201\<rparr>"


text \<open>An empty storage, and a parent session object whose list of two pairs is the one
  list object of the store of lists, at address 0.\<close>

definition empty_storage :: storage where
  "empty_storage = \<lparr>session_files = [], output_docs = [], made_dirs = {}\<rparr>"

definition example_heap :: heap where
  "example_heap = \<lparr>cell = (\<lambda>a. [])(0 := history 2), free = 1\<rparr>"

definition example_parent :: "addr Session" where
  "example_parent = with_window (example_session (history 2)) 0"



text \<open>A storage with a session file that carries the name \<open>main/alt\<close> and lacks the
  key \<open>session_id\<close>.\<close>

definition damaged_storage :: storage where
  "damaged_storage =
     \<lparr>session_files =
        [(''4a5b6c7d.json'',
          Json ((to_dict (example_session []))\<lparr>d_name := Some ''main/alt'', d_session_id := None\<rparr>))],
      output_docs = [],
      made_dirs = {}\<rparr>"


section \<open>Properties of the retry decorator\<close>

lemma retry_loop_attempts_le:
  "attempts (snd (retry_loop func m md u n retry delay w)) \<le> attempts w + n"
proof (induction n arbitrary: retry delay w)
  case 0
  show ?case by simp
next
  case (Suc n)
  obtain r s' where f: "func (inner w) = (r, s')" by (cases "func (inner w)")
  show ?case
  proof (cases r)
    case (Inr v)
    with f show ?thesis by simp
  next
    case (Inl e)
    let ?w2 = "w\<lparr>inner := s', attempts := Suc (attempts w),
                 sleeps := sleeps w @ [real_of_int delay + u retry * real_of_int delay]\<rparr>"
    have "attempts (snd (retry_loop func m md u n (Suc retry) (min (delay * 2) md) ?w2))
            \<le> attempts ?w2 + n"
      by (rule Suc.IH)
    with f Inl show ?thesis by (simp add: Let_def)
  qed
qed

lemma retry_loop_all_fail:
  "list_all transient_failure (outcomes func (inner w) (Suc n)) \<Longrightarrow>
   retry + Suc n = m \<Longrightarrow>
   (\<exists>e. last (outcomes func (inner w) (Suc n)) = Inl e \<and>
        fst (retry_loop func m md u (Suc n) retry delay w) = Inl e) \<and>
   attempts (snd (retry_loop func m md u (Suc n) retry delay w)) = attempts w + Suc n \<and>
   length (sleeps (snd (retry_loop func m md u (Suc n) retry delay w))) = length (sleeps w) + n"
proof (induction n arbitrary: retry delay w)
  case 0
  obtain r s' where f: "func (inner w) = (r, s')" by (cases "func (inner w)")
  with 0 obtain e where e: "r = Inl e" "is_transient e" by (cases r) auto
  from 0 have "int retry = int m - 1" by simp
  with f e show ?case by simp
next
  case (Suc n)
  obtain r s' where f: "func (inner w) = (r, s')" by (cases "func (inner w)")
  with Suc.prems obtain e where e: "r = Inl e" "is_transient e" by (cases r) auto
  let ?w2 = "w\<lparr>inner := s', attempts := Suc (attempts w),
               sleeps := sleeps w @ [real_of_int delay + u retry * real_of_int delay]\<rparr>"
  from Suc.prems f have all: "list_all transient_failure (outcomes func (inner ?w2) (Suc n))"
    by simp
  from Suc.prems have ne: "int retry \<noteq> int m - 1" and m: "Suc retry + Suc n = m" by auto
  have step: "retry_loop func m md u (Suc (Suc n)) retry delay w =
              retry_loop func m md u (Suc n) (Suc retry) (min (delay * 2) md) ?w2"
    using f e ne by (simp add: Let_def)
  have last: "last (outcomes func (inner w) (Suc (Suc n))) = last (outcomes func s' (Suc n))"
    using f by (simp split: prod.splits)
  from Suc.IH[OF all m, of "min (delay * 2) md"] show ?case
    unfolding step last by simp
qed

lemma retry_loop_sleeps:
  "delay = min (2 ^ retry) 32 \<Longrightarrow> length (sleeps w) = retry \<Longrightarrow>
   \<forall>k < retry. sleeps w ! k = real_of_int (min (2 ^ k) 32) + u k * real_of_int (min (2 ^ k) 32) \<Longrightarrow>
   k < length (sleeps (snd (retry_loop func m 32 u n retry delay w))) \<Longrightarrow>
   sleeps (snd (retry_loop func m 32 u n retry delay w)) ! k =
     real_of_int (min (2 ^ k) 32) + u k * real_of_int (min (2 ^ k) 32)"
proof (induction n arbitrary: retry delay w)
  case 0
  then show ?case by simp
next
  case (Suc n)
  obtain r s' where f: "func (inner w) = (r, s')" by (cases "func (inner w)")
  show ?case
  proof (cases r)
    case (Inr v)
    with f Suc.prems show ?thesis by simp
  next
    case (Inl e)
    let ?w2 = "w\<lparr>inner := s', attempts := Suc (attempts w),
                 sleeps := sleeps w @ [real_of_int delay + u retry * real_of_int delay]\<rparr>"
    show ?thesis
    proof (cases "is_transient e \<and> int retry \<noteq> int m - 1")
      case False
      with f Inl Suc.prems show ?thesis by (auto simp: Let_def)
    next
      case True
      have step: "retry_loop func m 32 u (Suc n) retry delay w =
              retry_loop func m 32 u n (Suc retry) (min (delay * 2) 32) ?w2"
        using f Inl True by (simp add: Let_def)
      have d: "min (delay * 2) 32 = min (2 ^ Suc retry) (32::int)"
        using Suc.prems(1) by (simp add: min_def)
      have l: "length (sleeps ?w2) = Suc retry" using Suc.prems(2) by simp
      have inv: "\<forall>k < Suc retry. sleeps ?w2 ! k =
          real_of_int (min (2 ^ k) 32) + u k * real_of_int (min (2 ^ k) 32)"
        using Suc.prems(1,2,3) by (auto simp: nth_append less_Suc_eq)
      from Suc.IH[OF d l inv] Suc.prems(4) show ?thesis unfolding step by simp
    qed
  qed
qed


text \<open>
  Claim C2. Whatever the wrapped call does and whatever the jitter draws are, the
  decorated call invokes the wrapped function at most 5 times. When the first five
  invocations all fail with a transient error (rate limit or server error), the wrapper
  raises the error of the fifth invocation, having made exactly five invocations.
\<close>

theorem retry_at_most_five_attempts:
  "attempts (snd (wrapper func u s)) \<le> 5 \<and>
   (list_all transient_failure (outcomes func s 5) \<longrightarrow>
      (\<exists>e. outcomes func s 5 ! 4 = Inl e \<and> fst (wrapper func u s) = Inl e) \<and>
      attempts (snd (wrapper func u s)) = 5)"
proof
  show "attempts (snd (wrapper func u s)) \<le> 5"
    using retry_loop_attempts_le[of func 5 32 u 5 0 1 "\<lparr>inner = s, attempts = 0, sleeps = []\<rparr>"]
    by (simp add: wrapper_def retry_with_exponential_backoff_def)
next
  show "list_all transient_failure (outcomes func s 5) \<longrightarrow>
      (\<exists>e. outcomes func s 5 ! 4 = Inl e \<and> fst (wrapper func u s) = Inl e) \<and>
      attempts (snd (wrapper func u s)) = 5"
  proof
    assume a: "list_all transient_failure (outcomes func s 5)"
    have five: "(5::nat) = Suc 4" by simp
    have len: "length (outcomes func s' n) = n" for s' n
      by (induction n arbitrary: s') (auto split: prod.splits)
    have ne: "outcomes func s 5 \<noteq> []" using len[of s 5] by auto
    have l: "last (outcomes func s 5) = outcomes func s 5 ! 4"
      using last_conv_nth[OF ne] len[of s 5] by simp
    from a have a': "list_all transient_failure
        (outcomes func (inner \<lparr>inner = s, attempts = 0, sleeps = []\<rparr>) (Suc 4))"
      by (simp del: outcomes.simps)
    from retry_loop_all_fail[OF a', of 0 5 32 u 1] l
    show "(\<exists>e. outcomes func s 5 ! 4 = Inl e \<and> fst (wrapper func u s) = Inl e) \<and>
      attempts (snd (wrapper func u s)) = 5"
      by (simp add: wrapper_def retry_with_exponential_backoff_def del: outcomes.simps retry_loop.simps)
  qed
qed

text \<open>Five transient failures in a row, with a success scripted as sixth outcome: the
  fifth error is raised and the sixth outcome is never asked for.\<close>

theorem retry_at_most_five_attempts_witness:
  "list_all transient_failure
     (outcomes scripted [Inl RateLimitError, Inl RateLimitError, Inl InternalServerError,
        Inl RateLimitError, Inl InternalServerError, Inr (1::nat)] 5) \<and>
   fst (wrapper scripted (\<lambda>_. 0) [Inl RateLimitError, Inl RateLimitError, Inl InternalServerError,
        Inl RateLimitError, Inl InternalServerError, Inr (1::nat)]) = Inl InternalServerError \<and>
   attempts (snd (wrapper scripted (\<lambda>_. 0) [Inl RateLimitError, Inl RateLimitError,
        Inl InternalServerError, Inl RateLimitError, Inl InternalServerError, Inr (1::nat)])) = 5"
  using retry_at_most_five_attempts[where func = scripted and u = "\<lambda>_. 0" and
      s = "[Inl RateLimitError, Inl RateLimitError,
        Inl InternalServerError, Inl RateLimitError, Inl InternalServerError, Inr (1::nat)]"]
  by (simp add: eval_nat_numeral)

text \<open>
  Claim C6. With \<open>initial_delay = 1\<close> and \<open>max_delay = 32\<close>, and for any number of
  retries allowed, the \<open>k\<close>-th sleep of the wrapper lasts the base delay
  \<open>min (2 ^ (k - 1)) 32\<close> plus the jitter, which is the draw of
  \<open>random.uniform(0, 0.1)\<close> times that base delay; so when the draw lies in
  \<open>[0, 1/10]\<close> the sleep lies between the base delay and the base delay plus 10 per cent.
  With the defaults, three transient failures followed by a success return the success
  after exactly three sleeps, of base delays 1, 2 and 4.
\<close>

theorem backoff_delays:
  "(\<forall>k. 1 \<le> k \<and> k \<le> length (sleeps (snd (retry_with_exponential_backoff m 1 32 func u s))) \<longrightarrow>
      sleeps (snd (retry_with_exponential_backoff m 1 32 func u s)) ! (k - 1) =
        real_of_int (base_delay k) + u (k - 1) * real_of_int (base_delay k) \<and>
      (0 \<le> u (k - 1) \<and> u (k - 1) \<le> 1 / 10 \<longrightarrow>
         real_of_int (base_delay k) \<le> sleeps (snd (retry_with_exponential_backoff m 1 32 func u s)) ! (k - 1) \<and>
         sleeps (snd (retry_with_exponential_backoff m 1 32 func u s)) ! (k - 1)
           \<le> real_of_int (base_delay k) + real_of_int (base_delay k) / 10)) \<and>
   (outcomes func s 4 = [Inl e1, Inl e2, Inl e3, Inr v] \<and>
    is_transient e1 \<and> is_transient e2 \<and> is_transient e3 \<longrightarrow>
      fst (wrapper func u s) = Inr (Some v) \<and>
      sleeps (snd (wrapper func u s)) = [1 + u 0 * 1, 2 + u 1 * 2, 4 + u 2 * 4])"
proof (intro conjI allI impI)
  fix k
  let ?sl = "sleeps (snd (retry_with_exponential_backoff m 1 32 func u s))"
  assume k: "1 \<le> k \<and> k \<le> length ?sl"
  then have "k - 1 < length ?sl" by arith
  then have k1: "k - 1 < length (sleeps (snd (retry_loop func m 32 u m 0 1
       \<lparr>inner = s, attempts = 0, sleeps = []\<rparr>)))"
    by (simp add: retry_with_exponential_backoff_def)
  have b: "base_delay k \<ge> 1" by (simp add: base_delay_def)
  show eq: "?sl ! (k - 1) = real_of_int (base_delay k) + u (k - 1) * real_of_int (base_delay k)"
    using retry_loop_sleeps[OF _ _ _ k1] 
    by (simp add: retry_with_exponential_backoff_def base_delay_def)
  assume u: "0 \<le> u (k - 1) \<and> u (k - 1) \<le> 1 / 10"
  have nn: "0 \<le> real_of_int (base_delay k)" using b by simp
  show "real_of_int (base_delay k) \<le> ?sl ! (k - 1)"
    unfolding eq using u nn by simp
  have "u (k - 1) * real_of_int (base_delay k) \<le> (1 / 10) * real_of_int (base_delay k)"
    using u nn by (intro mult_right_mono) auto
  then show "?sl ! (k - 1) \<le> real_of_int (base_delay k) + real_of_int (base_delay k) / 10"
    unfolding eq by simp
next
  assume a: "outcomes func s 4 = [Inl e1, Inl e2, Inl e3, Inr v] \<and>
    is_transient e1 \<and> is_transient e2 \<and> is_transient e3"
  obtain r1 s1 where f1: "func s = (r1, s1)" by (cases "func s")
  obtain r2 s2 where f2: "func s1 = (r2, s2)" by (cases "func s1")
  obtain r3 s3 where f3: "func s2 = (r3, s3)" by (cases "func s2")
  obtain r4 s4 where f4: "func s3 = (r4, s4)" by (cases "func s3")
  from a f1 f2 f3 f4 have r: "r1 = Inl e1" "r2 = Inl e2" "r3 = Inl e3" "r4 = Inr v"
    by (simp_all add: eval_nat_numeral)
  show "fst (wrapper func u s) = Inr (Some v)"
    using a f1 f2 f3 f4 r
    by (simp add: wrapper_def retry_with_exponential_backoff_def eval_nat_numeral Let_def)
  show "sleeps (snd (wrapper func u s)) = [1 + u 0 * 1, 2 + u 1 * 2, 4 + u 2 * 4]"
    using a f1 f2 f3 f4 r
    by (simp add: wrapper_def retry_with_exponential_backoff_def eval_nat_numeral Let_def)
qed


text \<open>Eight attempts allowed and eight transient failures: the seventh sleep has reached
  the cap of 32. Three failures and a success under the defaults: sleeps of 1, 2 and 4,
  each with a jitter of 5 per cent.\<close>

theorem backoff_delays_witness:
  "(1::nat) \<le> 7 \<and>
   7 \<le> length (sleeps (snd (retry_with_exponential_backoff 8 1 32 scripted (\<lambda>_. 1 / 20)
          (replicate 8 (Inl RateLimitError :: error + nat))))) \<and>
   (0::real) \<le> 1 / 20 \<and> (1::real) / 20 \<le> 1 / 10 \<and>
   base_delay 7 = 32 \<and>
   sleeps (snd (retry_with_exponential_backoff 8 1 32 scripted (\<lambda>_. 1 / 20)
          (replicate 8 (Inl RateLimitError :: error + nat)))) ! (7 - 1) = 32 + 1 / 20 * 32 \<and>
   outcomes scripted [Inl RateLimitError, Inl InternalServerError, Inl RateLimitError, Inr (9::nat)] 4
     = [Inl RateLimitError, Inl InternalServerError, Inl RateLimitError, Inr 9] \<and>
   fst (wrapper scripted (\<lambda>_. 1 / 20)
     [Inl RateLimitError, Inl InternalServerError, Inl RateLimitError, Inr (9::nat)]) = Inr (Some 9) \<and>
   sleeps (snd (wrapper scripted (\<lambda>_. 1 / 20)
     [Inl RateLimitError, Inl InternalServerError, Inl RateLimitError, Inr (9::nat)]))
     = [1 + 1 / 20 * 1, 2 + 1 / 20 * 2, 4 + 1 / 20 * 4]"
proof -
  let ?w = "snd (retry_with_exponential_backoff 8 1 32 scripted (\<lambda>_. 1 / 20)
          (replicate 8 (Inl RateLimitError :: error + nat)))"
  have len: "length (sleeps ?w) = 7"
    by (simp add: retry_with_exponential_backoff_def eval_nat_numeral)
  have b: "base_delay 7 = 32" by (simp add: base_delay_def)
  have o: "outcomes scripted [Inl RateLimitError, Inl InternalServerError, Inl RateLimitError, Inr (9::nat)] 4
     = [Inl RateLimitError, Inl InternalServerError, Inl RateLimitError, Inr 9]"
    by (simp add: eval_nat_numeral)
  note t1 = backoff_delays[where m = 8 and func = scripted and u = "\<lambda>_. 1 / 20" and
      s = "replicate 8 (Inl RateLimitError :: error + nat)", THEN conjunct1, rule_format, of 7]
  note t2 = backoff_delays[where func = scripted and u = "\<lambda>_. 1 / 20" and
      s = "[Inl RateLimitError, Inl InternalServerError, Inl RateLimitError, Inr (9::nat)]" and
      ?e1.0 = RateLimitError and ?e2.0 = InternalServerError and ?e3.0 = RateLimitError and v = 9,
      THEN conjunct2, rule_format]
  from t1 len b have "sleeps ?w ! (7 - 1) = 32 + 1 / 20 * 32" by simp
  moreover from t2 o have "fst (wrapper scripted (\<lambda>_. 1 / 20)
     [Inl RateLimitError, Inl InternalServerError, Inl RateLimitError, Inr (9::nat)]) = Inr (Some 9) \<and>
   sleeps (snd (wrapper scripted (\<lambda>_. 1 / 20)
     [Inl RateLimitError, Inl InternalServerError, Inl RateLimitError, Inr (9::nat)]))
     = [1 + 1 / 20 * 1, 2 + 1 / 20 * 2, 4 + 1 / 20 * 4]" by simp
  ultimately show ?thesis using len b o by simp
qed


section \<open>Formatting and reading integers\<close>

lemma digit_char:
  assumes "d < 10"
  shows "is_digit (''0123456789'' ! d)" and "digit_val (''0123456789'' ! d) = int d"
proof -
  from assms have "d = 0 \<or> d = 1 \<or> d = 2 \<or> d = 3 \<or> d = 4 \<or> d = 5 \<or> d = 6 \<or> d = 7 \<or> d = 8 \<or> d = 9"
    by arith
  then show "is_digit (''0123456789'' ! d)" and "digit_val (''0123456789'' ! d) = int d"
    by (auto simp: is_digit_def digit_val_def)
qed

lemma is_digit_facts:
  "is_digit c \<Longrightarrow> \<not> is_space c \<and> c \<noteq> CHR ''-'' \<and> c \<noteq> CHR ''+'' \<and> c \<noteq> CHR ''_''"
  by (auto simp: is_digit_def is_space_def)

lemma dec_digits: "list_all is_digit (dec n) \<and> dec n \<noteq> []"
proof (induction n rule: dec.induct)
  case (1 n)
  show ?case
  proof (cases "n < 10")
    case True
    then show ?thesis by (subst dec.simps, subst dec.simps) (simp add: digit_char)
  next
    case False
    have m: "n mod 10 < 10" by simp
    from False 1 have "list_all is_digit (dec (n div 10))" by simp
    with False m show ?thesis
      by (subst dec.simps, subst dec.simps) (simp add: digit_char del: dec.simps)
  qed
qed

lemma parse_digits_dec:
  "parse_digits (dec n @ rest) acc prev =
     parse_digits rest (acc * 10 ^ length (dec n) + int n) True"
proof (induction n arbitrary: rest acc prev rule: dec.induct)
  case (1 n)
  show ?case
  proof (cases "n < 10")
    case True
    then have d: "dec n = [''0123456789'' ! n]" by (subst dec.simps) simp
    show ?thesis unfolding d using True by (simp add: digit_char mult.commute)
  next
    case False
    have m: "n mod 10 < 10" by simp
    from False have d: "dec n = dec (n div 10) @ [''0123456789'' ! (n mod 10)]"
      by (subst dec.simps) simp
    have "parse_digits (dec n @ rest) acc prev =
          parse_digits (dec (n div 10) @ (''0123456789'' ! (n mod 10)) # rest) acc prev"
      unfolding d by simp
    also have "\<dots> = parse_digits ((''0123456789'' ! (n mod 10)) # rest)
                       (acc * 10 ^ length (dec (n div 10)) + int (n div 10)) True"
      using False by (rule "1.IH"[OF _])
    also have "\<dots> = parse_digits rest
        (10 * (acc * 10 ^ length (dec (n div 10)) + int (n div 10)) + int (n mod 10)) True"
      using m by (simp add: digit_char)
    also have "10 * (acc * 10 ^ length (dec (n div 10)) + int (n div 10)) + int (n mod 10)
               = acc * 10 ^ length (dec n) + int n"
    proof -
      have "int n = 10 * int (n div 10) + int (n mod 10)"
        by (simp add: zdiv_int zmod_int)
      moreover have "length (dec n) = Suc (length (dec (n div 10)))" unfolding d by simp
      ultimately show ?thesis by (simp add: algebra_simps)
    qed
    finally show ?thesis .
  qed
qed

lemma parse_digits_zeros:
  "parse_digits (replicate k CHR ''0'' @ rest) 0 prev =
     parse_digits rest 0 (prev \<or> 0 < k)"
  by (induction k arbitrary: prev) (simp_all add: is_digit_def digit_val_def)

lemma parse_digits_zfill: "parse_digits (zfill w (dec n)) 0 False = Some (int n)"
proof -
  have "parse_digits (zfill w (dec n)) 0 False =
        parse_digits (replicate (w - length (dec n)) CHR ''0'' @ (dec n @ [])) 0 False"
    by (simp add: zfill_def)
  also have "\<dots> = parse_digits (dec n @ []) 0 (0 < w - length (dec n))"
    by (simp only: parse_digits_zeros) simp
  also have "\<dots> = Some (int n)"
    by (simp only: parse_digits_dec) simp
  finally show ?thesis .
qed

lemma zfill_digits: "list_all is_digit (zfill w (dec n)) \<and> zfill w (dec n) \<noteq> []"
proof -
  have z: "is_digit CHR ''0''" by (simp add: is_digit_def)
  have "list_all is_digit (replicate (w - length (dec n)) CHR ''0'')"
    using z by (simp add: list_all_iff)
  with dec_digits[of n] show ?thesis by (simp add: zfill_def)
qed

lemma strip_id:
  assumes "s \<noteq> []" and "\<not> is_space (hd s)" and "\<not> is_space (last s)"
  shows "strip s = s"
proof -
  from assms obtain c cs where s: "s = c # cs" by (cases s) auto
  with assms have 1: "dropWhile is_space s = s" by simp
  from assms have "rev s \<noteq> []" and h: "hd (rev s) = last s" by (simp_all add: hd_rev)
  then obtain d ds where r: "rev s = d # ds" by (cases "rev s") auto
  with h have "d = last s" by simp
  with assms(3) have 2: "dropWhile is_space (rev s) = rev s" unfolding r by simp
  show ?thesis by (simp add: strip_def 1 2)
qed

lemma strip_digits:
  assumes "list_all is_digit s" and "s \<noteq> []"
  shows "strip s = s"
proof (rule strip_id)
  show "s \<noteq> []" by fact
  from assms have "is_digit (hd s)" by (cases s) auto
  then show "\<not> is_space (hd s)" using is_digit_facts by blast
  from assms have "is_digit (last s)" by (simp add: list_all_iff)
  then show "\<not> is_space (last s)" using is_digit_facts by blast
qed

lemma py_int_format_05d: "py_int (format_05d n) = Some n"
proof (cases "n < 0")
  case False
  let ?s = "zfill 5 (dec (nat n))"
  from zfill_digits[of 5 "nat n"] obtain c cs where s: "?s = c # cs" and c: "is_digit c"
    by (cases ?s) auto
  have st: "strip ?s = ?s" using zfill_digits[of 5 "nat n"] by (intro strip_digits) auto
  from c have ne: "c \<noteq> CHR ''-''" "c \<noteq> CHR ''+''" using is_digit_facts by blast+
  have "py_int ?s = parse_digits ?s 0 False"
    unfolding py_int_def st using s ne by simp
  also have "\<dots> = Some (int (nat n))" by (rule parse_digits_zfill)
  finally show ?thesis using False by (simp add: format_05d_def)
next
  case True
  let ?t = "zfill 4 (dec (nat (- n)))"
  let ?s = "CHR ''-'' # ?t"
  from zfill_digits[of 4 "nat (- n)"] have t: "list_all is_digit ?t" "?t \<noteq> []" by auto
  then have "is_digit (last ?t)" by (simp add: list_all_iff)
  then have "\<not> is_space (last ?s)" using t is_digit_facts by auto
  moreover have "\<not> is_space (hd ?s)" by (simp add: is_space_def)
  ultimately have st: "strip ?s = ?s" by (intro strip_id) auto
  have "py_int ?s = map_option uminus (parse_digits ?t 0 False)"
    unfolding py_int_def st by simp
  also have "\<dots> = Some (- int (nat (- n)))" by (simp only: parse_digits_zfill) simp
  finally show ?thesis using True by (simp add: format_05d_def)
qed

lemma length_dec_le: "0 < k \<Longrightarrow> (length (dec n) \<le> k) = (n < 10 ^ k)"
proof (induction n arbitrary: k rule: dec.induct)
  case (1 n)
  show ?case
  proof (cases "n < 10")
    case True
    then have d: "dec n = [''0123456789'' ! n]" by (subst dec.simps) simp
    have "(10::nat) ^ 1 \<le> 10 ^ k" using 1(2) by (intro power_increasing) auto
    with True have "n < 10 ^ k" by simp
    with 1(2) show ?thesis unfolding d by simp
  next
    case False
    from False have d: "dec n = dec (n div 10) @ [''0123456789'' ! (n mod 10)]"
      by (subst dec.simps) simp
    show ?thesis
    proof (cases k)
      case 0
      with 1(2) show ?thesis by simp
    next
      case (Suc j)
      show ?thesis
      proof (cases "j = 0")
        case True
        have "dec (n div 10) \<noteq> []" using dec_digits by blast
        then have "length (dec (n div 10)) \<noteq> 0" by simp
        with True Suc False show ?thesis unfolding d by simp
      next
        case F: False
        then have "(length (dec (n div 10)) \<le> j) = (n div 10 < 10 ^ j)"
          using "1.IH"[OF False, of j] by simp
        moreover have "(n div 10 < 10 ^ j) = (n < 10 ^ Suc j)"
          by (simp add: div_less_iff_less_mult mult.commute)
        ultimately show ?thesis unfolding d Suc by simp
      qed
    qed
  qed
qed

lemma length_format_05d:
  "0 \<le> n \<Longrightarrow> length (format_05d n) = 5 \<longleftrightarrow> n \<le> 99999"
proof -
  assume n: "0 \<le> n"
  have "length (zfill 5 (dec (nat n))) = max 5 (length (dec (nat n)))"
    by (simp add: zfill_def)
  moreover have "(length (dec (nat n)) \<le> 5) = (nat n < 10 ^ 5)"
    by (rule length_dec_le) simp
  ultimately show ?thesis using n by (simp add: format_05d_def) arith
qed

lemma format_05d_digits: "0 \<le> n \<Longrightarrow> list_all is_digit (format_05d n)"
  using zfill_digits[of 5 "nat n"] by (simp add: format_05d_def)

text \<open>Facts for evaluating the string functions on concrete arguments.\<close>

lemma replicate_numeral_unfold:
  "replicate (numeral k) x = x # replicate (pred_numeral k) x"
  by (simp add: numeral_eq_Suc)

lemmas string_eval =
  format_05d_def zfill_def dec.simps replicate_numeral_unfold py_int_def strip_def
  is_space_def is_digit_def digit_val_def startswith_def endswith_def slice_from_def

section \<open>Recomputing the prompt counter from the history\<close>

lemma fold_max_eq_Max: "fold max ids (i::int) = Max (set (i # ids))"
proof (induction ids arbitrary: i)
  case Nil
  show ?case by simp
next
  case (Cons j ids)
  have "fold max (j # ids) i = fold max ids (max j i)" by simp
  also have "\<dots> = Max (set (max j i # ids))" by (rule Cons.IH)
  also have "\<dots> = Max (set (i # j # ids))"
    by (cases "set ids = {}") (simp_all add: max.assoc max.commute max.left_commute)
  finally show ?case .
qed

lemma ids_well_formed_Nil: "ids_well_formed []"
  by (simp add: ids_well_formed_def user_messages_def)

lemma ids_well_formed_Cons:
  "ids_well_formed (m # ms) = ((role m = ''user'' \<longrightarrow> id_of m \<noteq> None) \<and> ids_well_formed ms)"
  by (simp add: ids_well_formed_def user_messages_def)

lemma user_messages_Cons:
  "user_messages (m # ms) = (if role m = ''user'' then m # user_messages ms else user_messages ms)"
  by (simp add: user_messages_def)

lemma user_prompt_ids_ok:
  "ids_well_formed msgs \<Longrightarrow> user_prompt_ids msgs = Inr (map id_value (user_messages msgs))"
proof (induction msgs)
  case Nil
  show ?case by (simp add: user_messages_def)
next
  case (Cons m ms)
  then have ih: "user_prompt_ids ms = Inr (map id_value (user_messages ms))"
    by (simp add: ids_well_formed_Cons)
  show ?case
  proof (cases "role m = ''user''")
    case False
    with ih show ?thesis by (simp add: user_messages_Cons)
  next
    case True
    with Cons.prems obtain i where i: "id_of m = Some i"
      by (auto simp: ids_well_formed_Cons)
    then obtain p where p: "prompt_id m = Some p" "py_int p = Some i"
      by (auto simp: id_of_def split: option.splits)
    from True ih p i show ?thesis
      by (simp add: user_messages_Cons id_value_def)
  qed
qed

lemma user_prompt_ids_error:
  "user_prompt_ids msgs = Inl e \<Longrightarrow> e = ValueError \<or> e = KeyError"
proof (induction msgs)
  case Nil
  then show ?case by simp
next
  case (Cons m ms)
  show ?case
  proof (cases "role m = ''user''")
    case False
    with Cons show ?thesis by simp
  next
    case True
    with Cons show ?thesis
      by (cases "prompt_id m"; cases "py_int (the (prompt_id m))"; cases "user_prompt_ids ms")
         auto
  qed
qed

lemma user_prompt_ids_bad:
  "\<not> ids_well_formed msgs \<Longrightarrow> \<exists>e. user_prompt_ids msgs = Inl e"
proof (induction msgs)
  case Nil
  then show ?case by (simp add: ids_well_formed_Nil)
next
  case (Cons m ms)
  show ?case
  proof (cases "role m = ''user''")
    case False
    with Cons show ?thesis by (simp add: ids_well_formed_Cons)
  next
    case True
    show ?thesis
    proof (cases "id_of m")
      case None
      with True show ?thesis
        by (cases "prompt_id m") (simp_all add: id_of_def)
    next
      case (Some i)
      with Cons.prems True have "\<not> ids_well_formed ms" by (simp add: ids_well_formed_Cons)
      then obtain e where "user_prompt_ids ms = Inl e" using Cons.IH by blast
      with True Some show ?thesis
        by (cases "prompt_id m") (simp_all add: id_of_def)
    qed
  qed
qed

lemma max_user_prompt_id_cases:
  "max_user_prompt_id msgs =
     (if user_messages msgs \<noteq> [] \<and> ids_well_formed msgs
      then Inr (max_prompt_id_among_users msgs)
      else if ids_well_formed msgs then Inl ValueError
      else max_user_prompt_id msgs)"
proof (cases "ids_well_formed msgs")
  case False
  then show ?thesis by simp
next
  case True
  show ?thesis
  proof (cases "user_messages msgs")
    case Nil
    with True show ?thesis
      by (simp add: max_user_prompt_id_def user_prompt_ids_ok)
  next
    case (Cons m ms)
    with True show ?thesis
      by (simp add: max_user_prompt_id_def user_prompt_ids_ok max_prompt_id_among_users_def
                    fold_max_eq_Max)
  qed
qed

lemma max_user_prompt_id_error:
  "max_user_prompt_id msgs = Inl e \<Longrightarrow> e = ValueError \<or> e = KeyError"
proof (cases "ids_well_formed msgs")
  case True
  assume "max_user_prompt_id msgs = Inl e"
  with True show ?thesis
    by (auto simp: max_user_prompt_id_def user_prompt_ids_ok split: list.splits)
next
  case False
  assume a: "max_user_prompt_id msgs = Inl e"
  from user_prompt_ids_bad[OF False] obtain e' where e': "user_prompt_ids msgs = Inl e'" by blast
  with a have "e = e'" by (simp add: max_user_prompt_id_def)
  with user_prompt_ids_error[OF e'] show ?thesis by simp
qed

lemma max_user_prompt_id_bad:
  "\<not> (user_messages msgs \<noteq> [] \<and> ids_well_formed msgs) \<Longrightarrow>
   \<exists>e. max_user_prompt_id msgs = Inl e"
proof (cases "ids_well_formed msgs")
  case True
  assume "\<not> (user_messages msgs \<noteq> [] \<and> ids_well_formed msgs)"
  with True show ?thesis
    by (simp add: max_user_prompt_id_def user_prompt_ids_ok)
next
  case False
  from user_prompt_ids_bad[OF False] obtain e' where "user_prompt_ids msgs = Inl e'" by blast
  then show ?thesis by (simp add: max_user_prompt_id_def)
qed

lemma recompute_eq:
  "(case max_user_prompt_id msgs of
      Inr m \<Rightarrow> Inr (s\<lparr>last_prompt_id := m\<rparr>)
    | Inl e \<Rightarrow> if e = ValueError \<or> e = KeyError then Inr (s\<lparr>last_prompt_id := 0\<rparr>) else Inl e)
   = Inr (s\<lparr>last_prompt_id := max_prompt_id_among_users msgs\<rparr>)"
proof (cases "user_messages msgs \<noteq> [] \<and> ids_well_formed msgs")
  case True
  then have "max_user_prompt_id msgs = Inr (max_prompt_id_among_users msgs)"
    using max_user_prompt_id_cases[of msgs] by simp
  then show ?thesis by simp
next
  case False
  then obtain e where e: "max_user_prompt_id msgs = Inl e"
    using max_user_prompt_id_bad by blast
  from False have z: "max_prompt_id_among_users msgs = 0"
    by (auto simp: max_prompt_id_among_users_def)
  from e max_user_prompt_id_error[OF e] z show ?thesis by auto
qed


section \<open>What the operations of the processor leave in the current session\<close>

lemma get_next_prompt_ids_eq:
  "get_next_prompt_ids n s =
     (map (\<lambda>i. format_05d (last_prompt_id s + 1 + int i)) [0..<n],
      s\<lparr>last_prompt_id := last_prompt_id s + int n\<rparr>)"
proof (induction n arbitrary: s)
  case 0
  show ?case by simp
next
  case (Suc n)
  let ?s1 = "s\<lparr>last_prompt_id := last_prompt_id s + 1\<rparr>"
  have g: "get_next_prompt_id s = (format_05d (last_prompt_id s + 1), ?s1)"
    by (simp add: get_next_prompt_id_def Let_def)
  have m: "map (\<lambda>i. format_05d (last_prompt_id s + 1 + int i)) [0..<Suc n] =
           format_05d (last_prompt_id s + 1) #
           map (\<lambda>i. format_05d (last_prompt_id ?s1 + 1 + int i)) [0..<n]"
    by (simp only: map_upt_Suc) (simp add: algebra_simps)
  have l: "?s1\<lparr>last_prompt_id := last_prompt_id ?s1 + int n\<rparr> =
           s\<lparr>last_prompt_id := last_prompt_id s + int (Suc n)\<rparr>"
    by (simp add: add.assoc add.commute)
  show ?case
    unfolding m
    by (simp only: get_next_prompt_ids.simps g Suc.IH[of ?s1] prod.case l)
qed

lemma sorted_ids: "sorted_wrt (<) (map (\<lambda>i. (l::int) + 1 + int i) [0..<n])"
  by (simp add: sorted_wrt_iff_nth_less)

lemma save_session_session:
  "save_session now s st = (r, s', st') \<Longrightarrow> s' = s\<lparr>last_accessed := now\<rparr>"
  by (auto simp: save_session_def Let_def split: if_splits)

lemma track_usage_session:
  assumes "track_usage now resp p = (r, p')" and "current_session p = Some s"
  shows "current_session p' =
     Some (s\<lparr>total_input_tokens := total_input_tokens s + input_tokens resp,
              total_output_tokens := total_output_tokens s + output_tokens resp,
              total_cost := total_cost s +
                (real_of_int (input_tokens resp) / 1000 * input_token_price +
                 real_of_int (output_tokens resp) / 1000 * output_token_price),
              last_accessed := now\<rparr>)"
proof -
  let ?s3 = "s\<lparr>total_input_tokens := total_input_tokens s + input_tokens resp,
              total_output_tokens := total_output_tokens s + output_tokens resp,
              total_cost := total_cost s +
                (real_of_int (input_tokens resp) / 1000 * input_token_price +
                 real_of_int (output_tokens resp) / 1000 * output_token_price)\<rparr>"
  obtain r1 s4 st' where sv: "save_session now ?s3 (store p) = (r1, s4, st')"
    by (cases "save_session now ?s3 (store p)") auto
  from save_session_session[OF sv] have s4: "s4 = ?s3\<lparr>last_accessed := now\<rparr>" .
  from assms sv have "p' = p\<lparr>current_session := Some s4, store := st'\<rparr>"
    by (simp add: track_usage_def Let_def)
  with s4 show ?thesis by simp
qed

lemma ask_question_success:
  assumes "ask_question endpoint now1 now2 q p = (Inr (answer, pid), p')"
    and "current_session p = Some s"
  shows "pid = format_05d (last_prompt_id s + 1) \<and>
         (\<exists>resp. endpoint (build_messages s q) = Inr resp \<and> answer = answer_text resp \<and>
         current_session p' =
           Some (s\<lparr>total_input_tokens := total_input_tokens s + input_tokens resp,
              total_output_tokens := total_output_tokens s + output_tokens resp,
              total_cost := total_cost s +
                (real_of_int (input_tokens resp) / 1000 * input_token_price +
                 real_of_int (output_tokens resp) / 1000 * output_token_price),
              last_prompt_id := last_prompt_id s + 1,
              message_window := message_window s @
                 [\<lparr>role = ''user'', content = q, prompt_id = Some pid\<rparr>,
                  \<lparr>role = ''assistant'', content = answer, prompt_id = Some pid\<rparr>],
              last_accessed := now2\<rparr>))"
proof -
  from assms obtain resp where e: "endpoint (build_messages s q) = Inr resp"
    by (cases "endpoint (build_messages s q)") (auto simp: ask_question_def Let_def)
  obtain r1 p1 where t: "track_usage now1 resp p = (r1, p1)"
    by (cases "track_usage now1 resp p") auto
  from assms e t obtain u where r1: "r1 = Inr u"
    by (cases r1) (auto simp: ask_question_def Let_def)
  let ?s1 = "s\<lparr>total_input_tokens := total_input_tokens s + input_tokens resp,
              total_output_tokens := total_output_tokens s + output_tokens resp,
              total_cost := total_cost s +
                (real_of_int (input_tokens resp) / 1000 * input_token_price +
                 real_of_int (output_tokens resp) / 1000 * output_token_price),
              last_accessed := now1\<rparr>"
  from track_usage_session[OF t assms(2)] have c1: "current_session p1 = Some ?s1" .
  let ?pid = "format_05d (last_prompt_id s + 1)"
  let ?s4 = "?s1\<lparr>last_prompt_id := last_prompt_id s + 1,
                message_window := message_window s @
                 [\<lparr>role = ''user'', content = q, prompt_id = Some ?pid\<rparr>,
                  \<lparr>role = ''assistant'', content = answer_text resp, prompt_id = Some ?pid\<rparr>]\<rparr>"
  obtain r2 s5 st' where sv: "save_session now2 ?s4 (store p1) = (r2, s5, st')"
    by (cases "save_session now2 ?s4 (store p1)") auto
  from save_session_session[OF sv] have s5: "s5 = ?s4\<lparr>last_accessed := now2\<rparr>" .
  have unfold: "ask_question endpoint now1 now2 q p =
     (case r2 of Inl e \<Rightarrow> (Inl e, p1\<lparr>current_session := Some s5, store := st'\<rparr>)
      | Inr u' \<Rightarrow> (Inr (answer_text resp, ?pid), p1\<lparr>current_session := Some s5, store := st'\<rparr>))"
    using assms(2) e t r1 c1 sv
    by (simp add: ask_question_def Let_def get_next_prompt_id_def split: sum.splits)
  from assms(1) unfold obtain u' where "r2 = Inr u'" by (cases r2) auto
  with assms(1) unfold have res: "answer = answer_text resp" "pid = ?pid"
      "p' = p1\<lparr>current_session := Some s5, store := st'\<rparr>" by auto
  from res s5 e show ?thesis by simp
qed

section \<open>Saving and tracking\<close>

lemma json_serialisable_to_dict: "json_serialisable (to_dict s) = branch_serialisable s"
  by (simp add: json_serialisable_def to_dict_def branch_serialisable_def isoformat_def
                is_datetime_obj_def)


lemma save_session_eq:
  "save_session now s st =
     (if branch_serialisable s then Inr () else Inl TypeError,
      s\<lparr>last_accessed := now\<rparr>,
      st\<lparr>session_files :=
           write_file (session_id s @ ''.json'')
             (if branch_serialisable s then Json (to_dict (s\<lparr>last_accessed := now\<rparr>)) else NotJson)
             (session_files st)\<rparr>)"
proof -
  have "branch_serialisable (s\<lparr>last_accessed := now\<rparr>) = branch_serialisable s"
    by (simp add: branch_serialisable_def)
  then show ?thesis
    by (simp add: save_session_def Let_def json_serialisable_to_dict)
qed







section \<open>The window of the history that is sent\<close>

lemma slice_from_neg:
  "0 < w \<Longrightarrow> slice_from (- w) xs = drop (length xs - nat w) xs"
  by (auto simp: slice_from_def Let_def max_def nat_diff_distrib' intro: arg_cong[where f="\<lambda>n. drop n xs"])

lemma slice_from_zero: "slice_from (- 0) xs = xs"
  by (simp add: slice_from_def)

lemma context_window_positive:
  "0 < window_size s \<Longrightarrow>
   context_window s = drop (length (message_window s) - nat (window_size s)) (message_window s)"
  by (simp add: context_window_def slice_from_neg)

lemma context_window_after_ld:
  assumes "1 \<le> W" and "length (message_window s) = 2 * N"
  shows "context_window (s\<lparr>window_size := W * 2\<rparr>) =
           drop (2 * (N - min N (nat W))) (message_window s)"
    and "length (context_window (s\<lparr>window_size := W * 2\<rparr>)) = 2 * min N (nat W)"
proof -
  from assms(1) have p: "0 < window_size (s\<lparr>window_size := W * 2\<rparr>)" by simp
  have n: "nat (W * 2) = 2 * nat W" using assms(1) by (simp add: nat_mult_distrib)
  have d: "length (message_window s) - nat (W * 2) = 2 * (N - min N (nat W))"
    unfolding n assms(2) by (cases "N \<le> nat W") (simp_all add: min_def diff_mult_distrib2)
  show "context_window (s\<lparr>window_size := W * 2\<rparr>) =
           drop (2 * (N - min N (nat W))) (message_window s)"
    using context_window_positive[OF p] d by simp
  then show "length (context_window (s\<lparr>window_size := W * 2\<rparr>)) = 2 * min N (nat W)"
    using assms(2) by (cases "N \<le> nat W") (simp_all add: min_def)
qed

lemma length_history: "length (history n) = 2 * n"
  by (induction n) (simp_all add: history_def qa_pair_def)

lemma context_window_zero: "window_size s = 0 \<Longrightarrow> context_window s = message_window s"
  by (simp add: context_window_def slice_from_def)


section \<open>Reading a session back from storage\<close>

lemma from_dict_complete:
  assumes "d_session_id d = Some sid" and "d_name d = Some nm"
    and "d_document_summary d = Some summary" and "d_message_window d = Some mw"
    and "d_created_at d = Some (IsoText c)" and "d_last_accessed d = Some (IsoText a)"
  shows "\<exists>s. from_dict g d = Inr s \<and> session_id s = sid \<and> name s = nm \<and>
           document_summary s = summary \<and> message_window s = mw \<and>
           Session.created_at s = c \<and> last_accessed s = a \<and>
           conversation_id s = get_default (d_conversation_id d) g \<and>
           window_size s = get_default (d_window_size d) DEFAULT_CONTEXT_WINDOW \<and>
           branch_info s = d_branch_info d \<and>
           total_input_tokens s = get_default (d_total_input_tokens d) 0 \<and>
           total_output_tokens s = get_default (d_total_output_tokens d) 0 \<and>
           total_cost s = get_default (d_total_cost d) 0 \<and>
           last_prompt_id s =
             (if get_default (d_last_prompt_id d) 0 = 0 \<and> mw \<noteq> []
              then max_prompt_id_among_users mw else get_default (d_last_prompt_id d) 0)"
proof -
  let ?s0 = "\<lparr>session_id = sid,
               conversation_id = get_default (d_conversation_id d) g,
               name = nm,
               document_summary = summary,
               message_window = mw,
               created_at = c,
               last_accessed = a,
               window_size = get_default (d_window_size d) DEFAULT_CONTEXT_WINDOW,
               branch_info = None,
               last_prompt_id = get_default (d_last_prompt_id d) 0,
               total_input_tokens = get_default (d_total_input_tokens d) 0,
               total_output_tokens = get_default (d_total_output_tokens d) 0,
               total_cost = get_default (d_total_cost d) 0\<rparr>"
  let ?s1 = "case d_branch_info d of None \<Rightarrow> ?s0 | Some b \<Rightarrow> ?s0\<lparr>branch_info := Some b\<rparr>"
  have s1: "?s1 = ?s0\<lparr>branch_info := d_branch_info d\<rparr>"
    by (cases "d_branch_info d") simp_all
  have f: "from_dict g d =
     (if last_prompt_id ?s1 = 0 \<and> message_window ?s1 \<noteq> [] then
        (case max_user_prompt_id (message_window ?s1) of
           Inr m \<Rightarrow> Inr (?s1\<lparr>last_prompt_id := m\<rparr>)
         | Inl e \<Rightarrow> if e = ValueError \<or> e = KeyError then Inr (?s1\<lparr>last_prompt_id := 0\<rparr>)
                    else Inl e)
      else Inr ?s1)"
    using assms by (simp add: from_dict_def subscript_def Let_def del: Session.simps)
  show ?thesis
  proof (cases "get_default (d_last_prompt_id d) 0 = 0 \<and> mw \<noteq> []")
    case True
    then show ?thesis unfolding f recompute_eq s1 by simp
  next
    case False
    then show ?thesis unfolding f recompute_eq s1 by auto
  qed
qed


lemma find_session_name: "find_session files nm = Some d \<Longrightarrow> d_name d = Some nm"
proof (induction files)
  case Nil
  then show ?case by simp
next
  case (Cons f files)
  obtain filename c where f: "f = (filename, c)" by (cases f)
  show ?case
  proof (cases c)
    case NotJson
    with Cons f show ?thesis by (simp split: if_splits)
  next
    case (Json data)
    with Cons f show ?thesis by (auto split: if_splits)
  qed
qed


lemma create_new_found:
  assumes "find_session (session_files st) nm = Some d"
  shows "create_new fr st nm summary lp0 =
     (case from_dict (generated_conversation_id fr) d of
        Inl e \<Rightarrow> (Inl e, st)
      | Inr session \<Rightarrow>
          if message_window session \<noteq> [] then
            (case max_user_prompt_id (message_window session) of
               Inl e \<Rightarrow> (Inl e, st)
             | Inr max_id \<Rightarrow> (Inr (session\<lparr>last_prompt_id := max_id\<rparr>), st))
          else (Inr session, st))"
  using assms by (simp add: create_new_def)

section \<open>Branching\<close>

lemma from_dict_name: "from_dict g d = Inr s \<Longrightarrow> d_name d = Some (name s)"
proof -
  assume a: "from_dict g d = Inr s"
  from a obtain sid where 1: "d_session_id d = Some sid"
    by (cases "d_session_id d") (simp_all add: from_dict_def subscript_def)
  from a 1 obtain nm where 2: "d_name d = Some nm"
    by (cases "d_name d") (simp_all add: from_dict_def subscript_def)
  from a 1 2 obtain ds where 3: "d_document_summary d = Some ds"
    by (cases "d_document_summary d") (simp_all add: from_dict_def subscript_def)
  from a 1 2 3 obtain mw where 4: "d_message_window d = Some mw"
    by (cases "d_message_window d") (simp_all add: from_dict_def subscript_def)
  from a 1 2 3 4 obtain cv where 5: "d_created_at d = Some cv"
    by (cases "d_created_at d") (simp_all add: from_dict_def subscript_def)
  from a 1 2 3 4 5 obtain c where 6: "cv = IsoText c"
    by (cases cv) (simp_all add: from_dict_def subscript_def)
  from a 1 2 3 4 5 6 obtain av where 7: "d_last_accessed d = Some av"
    by (cases "d_last_accessed d") (simp_all add: from_dict_def subscript_def)
  from a 1 2 3 4 5 6 7 obtain ac where 8: "av = IsoText ac"
    by (cases av) (simp_all add: from_dict_def subscript_def)
  from from_dict_complete[OF 1 2 3 4 5[unfolded 6] 7[unfolded 8], of g] a
  have "name s = nm" by auto
  with 2 show ?thesis by simp
qed

lemma create_new_name:
  assumes "create_new fr st nm summary lp0 = (Inr s, st')"
  shows "name s = nm"
proof (cases "find_session (session_files st) nm")
  case None
  with assms show ?thesis
    by (auto simp: create_new_def split: prod.splits option.splits)
next
  case (Some d)
  from find_session_name[OF Some] have n: "d_name d = Some nm" .
  from assms obtain s0 where s0: "from_dict (generated_conversation_id fr) d = Inr s0"
    unfolding create_new_found[OF Some]
    by (cases "from_dict (generated_conversation_id fr) d") auto
  from from_dict_name[OF s0] n have "name s0 = nm" by simp
  moreover from assms s0 have "name s = name s0"
    unfolding create_new_found[OF Some]
    by (auto split: if_splits sum.splits)
  ultimately show ?thesis by simp
qed

lemma create_new_fresh:
  "find_session (session_files st) nm = None \<Longrightarrow>
   \<exists>s. create_new fr st nm summary lp0 = (Inr s, make_dirs nm st)"
  by (auto simp: create_new_def split: prod.splits option.splits)

lemma fold_append_to:
  "cell (fold (append_to a) ms h) a' = (if a' = a then cell h a @ ms else cell h a')"
  by (induction ms arbitrary: h) (simp_all add: append_to_def)

lemma create_branch_success:
  assumes "CHR ''/'' \<notin> set branch"
    and "message_window self < free h"
    and "create_new fr st (name self @ ''/'' @ branch) (document_summary self) 0 = (Inr created, st')"
  shows "\<exists>b h'. create_branch fr now st h self branch True = (Inr b, st', h') \<and>
      name b = name self @ ''/'' @ branch \<and>
      branch_info b = Some \<lparr>branch_name = branch, parent_id = session_id self,
                              created_at = DatetimeObj now, document_hash = None\<rparr> \<and>
      message_window b \<noteq> message_window self \<and>
      cell h' (message_window b) = cell h (message_window self) \<and>
      cell h' (message_window self) = cell h (message_window self)"
proof -
  let ?a = "free h"
  let ?h1 = "h\<lparr>cell := (cell h)(?a := message_window created), free := Suc ?a\<rparr>"
  let ?b = "Suc ?a"
  let ?h2 = "?h1\<lparr>cell := (cell ?h1)(?b := cell ?h1 (message_window self)), free := Suc ?b\<rparr>"
  let ?bi = "\<lparr>branch_name = branch, parent_id = session_id self,
               created_at = DatetimeObj now, document_hash = None\<rparr>"
  let ?new = "(with_window created ?a)\<lparr>branch_info := Some ?bi, message_window := ?b\<rparr>"
  have cb: "create_branch fr now st h self branch True = (Inr ?new, st', ?h2)"
    using assms(1,3) by (simp add: create_branch_def alloc_def Let_def)
  have n: "name ?new = name self @ ''/'' @ branch"
    using create_new_name[OF assms(3)] by (simp add: with_window_def)
  have ne: "message_window self \<noteq> ?a" "message_window self \<noteq> ?b"
    using assms(2) by auto
  show ?thesis
    apply (rule exI[of _ ?new])
    apply (rule exI[of _ ?h2])
    using cb n ne by (simp add: with_window_def)
qed

text \<open>
  The processor's \<open>create_branch\<close> never installs the new session: the branch record
  that \<open>Session.create_branch\<close> builds holds the \<open>datetime\<close> object of its creation,
  on which the dump of \<open>save_session\<close> raises.
\<close>

lemma deref_branch_info: "branch_info (deref h b) = branch_info b"
  by (simp add: deref_def with_window_def)

lemma processor_create_branch_fails:
  assumes "current_session p = Some cur"
  shows "\<exists>e st'. processor_create_branch fr now1 now2 branch include_history p =
           (Inl e, p\<lparr>store := st'\<rparr>)"
proof (cases "create_branch fr now1 (store p)
                  \<lparr>cell = (\<lambda>a. [])(0 := message_window cur), free = 1\<rparr>
                  (with_window cur 0) branch include_history")
  case (fields r st' h')
  show ?thesis
  proof (cases r)
    case (Inl e)
    with fields assms show ?thesis by (auto simp: processor_create_branch_def)
  next
    case (Inr b)
    with fields have "\<exists>bi. branch_info b = Some bi \<and> is_datetime_obj (BranchInfo.created_at bi)"
      by (auto simp: create_branch_def alloc_def Let_def is_datetime_obj_def with_window_def
               split: if_splits prod.splits sum.splits)
    then have "\<not> branch_serialisable (deref h' b)"
      by (auto simp: branch_serialisable_def deref_branch_info)
    with fields Inr assms show ?thesis
      by (auto simp: processor_create_branch_def save_session_eq)
  qed
qed

section \<open>What happens to the stored history\<close>











section \<open>The round trip through the dictionary\<close>



section \<open>Prompt identifiers\<close>

text \<open>
  Claim C3, as amended. Successive calls of \<open>get_next_prompt_id\<close> return the decimal
  renderings of the counter plus 1, plus 2, and so on: strings that read back as strictly
  increasing integers. Each is padded with zeros to at least five characters, and consists
  of exactly five digits as long as the counter stays between 0 and 99999. When
  \<open>ask_question\<close> succeeds, the identifier it returns is the next one of the session, and
  the two messages it appends, the question and the answer, both carry it.
\<close>

theorem prompt_ids_increase:
  "(get_next_prompt_ids n s = (ps, s') \<longrightarrow>
      ps = map (\<lambda>i. format_05d (last_prompt_id s + 1 + int i)) [0..<n] \<and>
      map py_int ps = map (\<lambda>i. Some (last_prompt_id s + 1 + int i)) [0..<n] \<and>
      sorted_wrt (<) (map (\<lambda>i. last_prompt_id s + 1 + int i) [0..<n]) \<and>
      last_prompt_id s' = last_prompt_id s + int n \<and>
      (0 \<le> last_prompt_id s \<and> last_prompt_id s + int n \<le> 99999 \<longrightarrow>
         list_all (\<lambda>p. length p = 5 \<and> list_all is_digit p) ps)) \<and>
   (current_session p = Some cur \<and>
    ask_question endpoint now1 now2 q p = (Inr (answer, pid), p') \<longrightarrow>
      pid = format_05d (last_prompt_id cur + 1) \<and>
      (\<exists>cur'. current_session p' = Some cur' \<and>
         last_prompt_id cur' = last_prompt_id cur + 1 \<and>
         message_window cur' = message_window cur @
           [\<lparr>role = ''user'', content = q, prompt_id = Some pid\<rparr>,
            \<lparr>role = ''assistant'', content = answer, prompt_id = Some pid\<rparr>]))"
proof (intro conjI impI)
  assume a: "get_next_prompt_ids n s = (ps, s')"
  then show ps: "ps = map (\<lambda>i. format_05d (last_prompt_id s + 1 + int i)) [0..<n]"
    by (simp add: get_next_prompt_ids_eq)
  show "map py_int ps = map (\<lambda>i. Some (last_prompt_id s + 1 + int i)) [0..<n]"
    unfolding ps by (simp add: py_int_format_05d)
  show "sorted_wrt (<) (map (\<lambda>i. last_prompt_id s + 1 + int i) [0..<n])"
    by (rule sorted_ids)
  from a show "last_prompt_id s' = last_prompt_id s + int n"
    by (auto simp: get_next_prompt_ids_eq)
  assume b: "0 \<le> last_prompt_id s \<and> last_prompt_id s + int n \<le> 99999"
  show "list_all (\<lambda>p. length p = 5 \<and> list_all is_digit p) ps"
    unfolding ps list_all_iff
  proof
    fix x
    assume "x \<in> set (map (\<lambda>i. format_05d (last_prompt_id s + 1 + int i)) [0..<n])"
    then obtain i where i: "i < n" and x: "x = format_05d (last_prompt_id s + 1 + int i)"
      by auto
    from b i have r: "0 \<le> last_prompt_id s + 1 + int i" "last_prompt_id s + 1 + int i \<le> 99999"
      by auto
    from r show "length x = 5 \<and> (\<forall>c\<in>set x. is_digit c)"
      unfolding x using length_format_05d[OF r(1)] format_05d_digits[OF r(1)]
      by (simp add: list_all_iff)
  qed
next
  assume c: "current_session p = Some cur \<and>
    ask_question endpoint now1 now2 q p = (Inr (answer, pid), p')"
  then have 1: "ask_question endpoint now1 now2 q p = (Inr (answer, pid), p')"
    and 2: "current_session p = Some cur" by auto
  from ask_question_success[OF 1 2] show "pid = format_05d (last_prompt_id cur + 1)" by blast
  from ask_question_success[OF 1 2] show "\<exists>cur'. current_session p' = Some cur' \<and>
         last_prompt_id cur' = last_prompt_id cur + 1 \<and>
         message_window cur' = message_window cur @
           [\<lparr>role = ''user'', content = q, prompt_id = Some pid\<rparr>,
            \<lparr>role = ''assistant'', content = answer, prompt_id = Some pid\<rparr>]"
    by auto
qed

text \<open>Three calls on a new session; a question asked in a session that has one pair.\<close>

theorem prompt_ids_increase_witness:
  "get_next_prompt_ids 3 (example_session []) =
     ([''00001'', ''00002'', ''00003''], (example_session [])\<lparr>last_prompt_id := 3\<rparr>) \<and>
   0 \<le> last_prompt_id (example_session []) \<and>
   last_prompt_id (example_session []) + int 3 \<le> 99999 \<and>
   map py_int [''00001'', ''00002'', ''00003''] = [Some 1, Some 2, Some 3] \<and>
   list_all (\<lambda>p. length p = 5 \<and> list_all is_digit p) [''00001'', ''00002'', ''00003''] \<and>
   current_session (example_processor (example_session (history 1))) =
     Some (example_session (history 1)) \<and>
   fst (ask_question example_endpoint 101 102 ''why?''
          (example_processor (example_session (history 1)))) = Inr (''forty-two'', ''00002'') \<and>
   (\<exists>cur'. current_session (snd (ask_question example_endpoint 101 102 ''why?''
                (example_processor (example_session (history 1))))) = Some cur' \<and>
      last_prompt_id cur' = last_prompt_id (example_session (history 1)) + 1 \<and>
      message_window cur' = message_window (example_session (history 1)) @
        [\<lparr>role = ''user'', content = ''why?'', prompt_id = Some ''00002''\<rparr>,
         \<lparr>role = ''assistant'', content = ''forty-two'', prompt_id = Some ''00002''\<rparr>])"
proof -
  let ?p = "example_processor (example_session (history 1))"
  have g: "get_next_prompt_ids 3 (example_session []) =
     ([''00001'', ''00002'', ''00003''], (example_session [])\<lparr>last_prompt_id := 3\<rparr>)"
    by (simp add: get_next_prompt_ids_eq upt_rec example_session_def string_eval)
  have r: "0 \<le> last_prompt_id (example_session []) \<and>
           last_prompt_id (example_session []) + int 3 \<le> 99999"
    by (simp add: example_session_def)
  have c: "current_session ?p = Some (example_session (history 1))"
    by (simp add: example_processor_def)
  have f: "fst (ask_question example_endpoint 101 102 ''why?'' ?p) = Inr (''forty-two'', ''00002'')"
    by (simp add: ask_question_def example_endpoint_def example_processor_def track_usage_def
      save_session_def json_serialisable_def to_dict_def isoformat_def is_datetime_obj_def
      get_next_prompt_id_def example_session_def history_def qa_pair_def Let_def string_eval)
  then have a: "ask_question example_endpoint 101 102 ''why?'' ?p =
      (Inr (''forty-two'', ''00002''), snd (ask_question example_endpoint 101 102 ''why?'' ?p))"
    by (metis prod.collapse)
  note t1 = prompt_ids_increase[THEN conjunct1, rule_format, OF g]
  note t2 = prompt_ids_increase[THEN conjunct2, rule_format, OF conjI[OF c a]]
  have 1: "map py_int [''00001'', ''00002'', ''00003''] = [Some 1, Some 2, Some 3]"
    by (simp add: string_eval)
  from t1 r have 2:
    "list_all (\<lambda>p. length p = 5 \<and> list_all is_digit p) [''00001'', ''00002'', ''00003'']"
    by blast
  from t2 have 3: "\<exists>cur'. current_session (snd (ask_question example_endpoint 101 102 ''why?'' ?p))
        = Some cur' \<and>
      last_prompt_id cur' = last_prompt_id (example_session (history 1)) + 1 \<and>
      message_window cur' = message_window (example_session (history 1)) @
        [\<lparr>role = ''user'', content = ''why?'', prompt_id = Some ''00002''\<rparr>,
         \<lparr>role = ''assistant'', content = ''forty-two'', prompt_id = Some ''00002''\<rparr>]"
    by blast
  from g r 1 2 c f 3 show ?thesis by blast
qed

text \<open>The claim as stated fails once the counter has reached 99999: the next identifier
  has six digits.\<close>

theorem prompt_id_six_digits:
  "fst (get_next_prompt_id ((example_session [])\<lparr>last_prompt_id := 99999\<rparr>)) = ''100000''"
  by (simp add: get_next_prompt_id_def string_eval)

section \<open>Usage accounting\<close>



section \<open>The context of a request\<close>

text \<open>
  Claim C1 asks for \<open>min N W\<close> pairs in the context of a session with \<open>N\<close> stored
  pairs and window size \<open>W\<close>. The code takes the last \<open>window_size\<close> messages. After
  the command \<open>/ld W\<close> with \<open>W \<ge> 1\<close>, which stores \<open>2 * W\<close>, these are the last
  \<open>min N W\<close> pairs (lemma \<open>context_window_after_ld\<close>). A session that
  \<open>create_new\<close> has built has the window size \<open>DEFAULT_CONTEXT_WINDOW = 10\<close>, which
  settings.py describes as a number of pairs: with ten stored pairs its context holds the
  last ten messages, the five pairs 6 to 10, and the request has eleven messages.
\<close>

theorem default_window_sends_five_pairs:
  "window_size (example_session (history 10)) = DEFAULT_CONTEXT_WINDOW \<and>
   DEFAULT_CONTEXT_WINDOW = 10 \<and>
   length (message_window (example_session (history 10))) = 2 * 10 \<and>
   context_window (example_session (history 10)) = concat (map qa_pair [6..<11]) \<and>
   length (context_window (example_session (history 10))) = 2 * 5 \<and>
   length (build_messages (example_session (history 10)) ''why?'') = 2 * 5 + 1"
proof -
  have h: "history 10 = concat (map qa_pair [1..<6]) @ concat (map qa_pair [6..<11])"
    by (simp add: history_def upt_rec eval_nat_numeral)
  have l: "length (concat (map qa_pair [1..<6])) = 10"
    by (simp add: upt_rec qa_pair_def)
  have l2: "length (concat (map qa_pair [6..<11])) = 10"
    by (simp add: upt_rec qa_pair_def)
  have "context_window (example_session (history 10)) =
          drop (length (history 10) - 10) (history 10)"
    by (simp add: context_window_def example_session_def DEFAULT_CONTEXT_WINDOW_def slice_from_neg)
  also have "\<dots> = drop 10 (history 10)"
    by (simp add: length_history)
  also have "\<dots> = drop 10 (concat (map qa_pair [1..<6]) @ concat (map qa_pair [6..<11]))"
    by (simp only: h)
  also have "\<dots> = concat (map qa_pair [6..<11])"
    using l by simp
  finally have c: "context_window (example_session (history 10)) = concat (map qa_pair [6..<11])" .
  have w: "window_size (example_session (history 10)) = DEFAULT_CONTEXT_WINDOW"
    by (simp add: example_session_def)
  have m: "length (message_window (example_session (history 10))) = 2 * 10"
    by (simp add: example_session_def length_history)
  have b: "length (build_messages (example_session (history 10)) ''why?'') = 2 * 5 + 1"
    unfolding build_messages_def c using l2 by simp
  from w m c l2 b show ?thesis
    by (simp add: DEFAULT_CONTEXT_WINDOW_def)
qed

section \<open>Recreating a session by name\<close>



section \<open>Forking a session\<close>

text \<open>
  Claim C4. Let the branch name have no \<open>/\<close> and let the parent's list of messages be
  a list object of the store. \<open>create_branch\<close> with \<open>include_history\<close> fails only with
  the exception that \<open>create_new\<close> raises for the composite name, which it can do only
  while reading an existing session file of that name. Otherwise it returns a session
  whose name is the parent's name, \<open>/\<close> and the branch name, whose branch record names
  the parent's \<open>session_id\<close> as \<open>parent_id\<close>, and whose list of messages is a list
  object of its own that equals the parent's at the time of the fork. Messages appended
  afterwards to the list of either session appear in that list and leave the list of the
  other as it was. When no session file carries the composite name, \<open>create_new\<close> does
  return a session.
\<close>

theorem create_branch_copies_history:
  assumes "CHR ''/'' \<notin> set branch"
    and "message_window self < free h"
  shows
   "(\<forall>e st'. create_new fr st (name self @ ''/'' @ branch) (document_summary self) 0 = (Inl e, st') \<longrightarrow>
       create_branch fr now st h self branch True = (Inl e, st', h)) \<and>
    (\<forall>created st'.
       create_new fr st (name self @ ''/'' @ branch) (document_summary self) 0 = (Inr created, st') \<longrightarrow>
       (\<exists>b h'. create_branch fr now st h self branch True = (Inr b, st', h') \<and>
          name b = name self @ ''/'' @ branch \<and>
          branch_info b = Some \<lparr>branch_name = branch, parent_id = session_id self,
                                  created_at = DatetimeObj now, document_hash = None\<rparr> \<and>
          message_window b \<noteq> message_window self \<and>
          cell h' (message_window b) = cell h (message_window self) \<and>
          cell h' (message_window self) = cell h (message_window self) \<and>
          (\<forall>ms. cell (fold (append_to (message_window self)) ms h') (message_window self) =
                   cell h (message_window self) @ ms \<and>
                 cell (fold (append_to (message_window self)) ms h') (message_window b) =
                   cell h (message_window self)) \<and>
          (\<forall>ms. cell (fold (append_to (message_window b)) ms h') (message_window b) =
                   cell h (message_window self) @ ms \<and>
                 cell (fold (append_to (message_window b)) ms h') (message_window self) =
                   cell h (message_window self)))) \<and>
    (find_session (session_files st) (name self @ ''/'' @ branch) = None \<longrightarrow>
       (\<exists>created. create_new fr st (name self @ ''/'' @ branch) (document_summary self) 0 =
                    (Inr created, make_dirs (name self @ ''/'' @ branch) st)))"
proof (intro conjI allI impI)
  fix e st'
  assume "create_new fr st (name self @ ''/'' @ branch) (document_summary self) 0 = (Inl e, st')"
  with assms(1) show "create_branch fr now st h self branch True = (Inl e, st', h)"
    by (simp add: create_branch_def)
next
  fix created st'
  assume c: "create_new fr st (name self @ ''/'' @ branch) (document_summary self) 0 = (Inr created, st')"
  from create_branch_success[OF assms c, of now] obtain b h' where
    r: "create_branch fr now st h self branch True = (Inr b, st', h')"
       "name b = name self @ ''/'' @ branch"
       "branch_info b = Some \<lparr>branch_name = branch, parent_id = session_id self,
                              created_at = DatetimeObj now, document_hash = None\<rparr>"
       "message_window b \<noteq> message_window self"
       "cell h' (message_window b) = cell h (message_window self)"
       "cell h' (message_window self) = cell h (message_window self)"
    by blast
  show "\<exists>b h'. create_branch fr now st h self branch True = (Inr b, st', h') \<and>
          name b = name self @ ''/'' @ branch \<and>
          branch_info b = Some \<lparr>branch_name = branch, parent_id = session_id self,
                                  created_at = DatetimeObj now, document_hash = None\<rparr> \<and>
          message_window b \<noteq> message_window self \<and>
          cell h' (message_window b) = cell h (message_window self) \<and>
          cell h' (message_window self) = cell h (message_window self) \<and>
          (\<forall>ms. cell (fold (append_to (message_window self)) ms h') (message_window self) =
                   cell h (message_window self) @ ms \<and>
                 cell (fold (append_to (message_window self)) ms h') (message_window b) =
                   cell h (message_window self)) \<and>
          (\<forall>ms. cell (fold (append_to (message_window b)) ms h') (message_window b) =
                   cell h (message_window self) @ ms \<and>
                 cell (fold (append_to (message_window b)) ms h') (message_window self) =
                   cell h (message_window self))"
    apply (rule exI[of _ b])
    apply (rule exI[of _ h'])
    using r by (simp add: fold_append_to)
next
  assume "find_session (session_files st) (name self @ ''/'' @ branch) = None"
  then show "\<exists>created. create_new fr st (name self @ ''/'' @ branch) (document_summary self) 0 =
                    (Inr created, make_dirs (name self @ ''/'' @ branch) st)"
    by (rule create_new_fresh)
qed

text \<open>The branch \<open>alt\<close> of the session \<open>main\<close> with two pairs, in an empty storage;
  a third pair is then appended to the parent. In a storage where a session file of the
  name \<open>main/alt\<close> cannot be read, the exception of \<open>create_new\<close> comes through.\<close>

theorem create_branch_copies_history_witness:
  "CHR ''/'' \<notin> set ''alt'' \<and>
   message_window example_parent < free example_heap \<and>
   find_session (session_files empty_storage) (name example_parent @ ''/'' @ ''alt'') = None \<and>
   (\<exists>b h'. create_branch example_fresh 300 empty_storage example_heap example_parent ''alt'' True =
        (Inr b, make_dirs ''main/alt'' empty_storage, h') \<and>
      name b = ''main/alt'' \<and>
      map_option parent_id (branch_info b) = Some ''0f8fad5b'' \<and>
      cell h' (message_window b) = history 2 \<and>
      cell (fold (append_to (message_window example_parent)) (qa_pair 3) h') (message_window b) =
        history 2 \<and>
      cell (fold (append_to (message_window example_parent)) (qa_pair 3) h')
        (message_window example_parent) = history 2 @ qa_pair 3) \<and>
   create_new example_fresh damaged_storage (name example_parent @ ''/'' @ ''alt'')
     (document_summary example_parent) 0 = (Inl KeyError, damaged_storage) \<and>
   create_branch example_fresh 300 damaged_storage example_heap example_parent ''alt'' True =
     (Inl KeyError, damaged_storage, example_heap)"
proof -
  have v: "CHR ''/'' \<notin> set ''alt''" by simp
  have a: "message_window example_parent < free example_heap"
    by (simp add: example_parent_def example_heap_def with_window_def)
  have n: "name example_parent = ''main''"
    by (simp add: example_parent_def with_window_def example_session_def)
  have i: "session_id example_parent = ''0f8fad5b''"
    by (simp add: example_parent_def with_window_def example_session_def)
  have c: "cell example_heap (message_window example_parent) = history 2"
    by (simp add: example_parent_def example_heap_def with_window_def)
  have f: "find_session (session_files empty_storage) (name example_parent @ ''/'' @ ''alt'') = None"
    by (simp add: empty_storage_def)
  note t = create_branch_copies_history[OF v a, of example_fresh empty_storage 300]
  from t f obtain created where
    cn: "create_new example_fresh empty_storage (name example_parent @ ''/'' @ ''alt'')
           (document_summary example_parent) 0 =
         (Inr created, make_dirs (name example_parent @ ''/'' @ ''alt'') empty_storage)"
    by blast
  from t cn obtain b h' where
    r: "create_branch example_fresh 300 empty_storage example_heap example_parent ''alt'' True =
          (Inr b, make_dirs (name example_parent @ ''/'' @ ''alt'') empty_storage, h')"
       "name b = name example_parent @ ''/'' @ ''alt''"
       "branch_info b = Some \<lparr>branch_name = ''alt'', parent_id = session_id example_parent,
                              created_at = DatetimeObj 300, document_hash = None\<rparr>"
       "cell h' (message_window b) = cell example_heap (message_window example_parent)"
       "\<forall>ms. cell (fold (append_to (message_window example_parent)) ms h')
                (message_window example_parent) =
                   cell example_heap (message_window example_parent) @ ms \<and>
             cell (fold (append_to (message_window example_parent)) ms h') (message_window b) =
                   cell example_heap (message_window example_parent)"
    by blast
  have d: "create_new example_fresh damaged_storage (name example_parent @ ''/'' @ ''alt'')
     (document_summary example_parent) 0 = (Inl KeyError, damaged_storage)"
    by (simp add: n create_new_def damaged_storage_def endswith_def to_dict_def from_dict_def
                  subscript_def)
  from create_branch_copies_history[OF v a, of example_fresh damaged_storage 300] d
  have e: "create_branch example_fresh 300 damaged_storage example_heap example_parent ''alt'' True =
     (Inl KeyError, damaged_storage, example_heap)"
    by blast
  have x: "\<exists>b h'. create_branch example_fresh 300 empty_storage example_heap example_parent ''alt'' True =
        (Inr b, make_dirs ''main/alt'' empty_storage, h') \<and>
      name b = ''main/alt'' \<and>
      map_option parent_id (branch_info b) = Some ''0f8fad5b'' \<and>
      cell h' (message_window b) = history 2 \<and>
      cell (fold (append_to (message_window example_parent)) (qa_pair 3) h') (message_window b) =
        history 2 \<and>
      cell (fold (append_to (message_window example_parent)) (qa_pair 3) h')
        (message_window example_parent) = history 2 @ qa_pair 3"
    apply (rule exI[of _ b])
    apply (rule exI[of _ h'])
    using r by (simp add: n i c)
  from v a f x d e show ?thesis by blast
qed

section \<open>Rejecting a branch name\<close>

text \<open>
  Claim C5. For a branch name that contains \<open>/\<close>, \<open>Session.create_branch\<close> raises
  \<open>ValueError\<close> and leaves the storage and the store of lists as they were: no session,
  file or directory is created. The processor's \<open>create_branch\<close> then also ends with
  that exception, with the same current session and the same storage.
\<close>

theorem create_branch_rejects_separator:
  "CHR ''/'' \<in> set branch \<Longrightarrow>
   create_branch fr now st h self branch include_history = (Inl ValueError, st, h) \<and>
   processor_create_branch fr now1 now2 branch include_history p = (Inl ValueError, p)"
  by (cases "current_session p") (simp_all add: create_branch_def processor_create_branch_def)

text \<open>The branch name \<open>main/alt\<close>.\<close>

theorem create_branch_rejects_separator_witness:
  "CHR ''/'' \<in> set ''main/alt'' \<and>
   create_branch example_fresh 300 empty_storage example_heap example_parent ''main/alt'' True =
     (Inl ValueError, empty_storage, example_heap) \<and>
   processor_create_branch example_fresh 300 301 ''main/alt'' True
       (example_processor (example_session (history 2))) =
     (Inl ValueError, example_processor (example_session (history 2)))"
  using create_branch_rejects_separator[of "''main/alt''" example_fresh 300 empty_storage
      example_heap example_parent True 300 301 "example_processor (example_session (history 2))"]
  by simp

section \<open>The stored history\<close>





end
